theory Spec2Isabelle
  imports
    Complex_Main
    "HOL-Library.Signed_Division"
    "HOL-Library.Char_ord"
    "HOL-Library.List_Lexorder"
begin

section \<open>Stored snapshots\<close>

text \<open>
  JSON values as \<open>JSON.parse\<close> and \<open>axios\<close> deliver them. A JavaScript value that may
  also be \<open>undefined\<close> is a \<open>json option\<close>, with \<open>None\<close> for \<open>undefined\<close>. Numbers are
  kept as exact rationals: the handlers only compare them.
\<close>

datatype json =
    JNull
  | JBool bool
  | JNum rat
  | JStr string
  | JArr "json list"
  | JObj "(string \<times> json) list"

type_synonym jsval = "json option"

text \<open>
  A row of the \<open>Snapshot\<close> table, with the columns of \<open>sequelize.define('Snapshot', ...)\<close>:
  \<open>raw_json\<close> (JSON), \<open>signature\<close>, \<open>x42_address\<close>, \<open>epix_address\<close> (STRING) and
  \<open>snapshot_balance\<close> (BIGINT, read back through \<open>BigInt(...)\<close>). Rows are kept in
  ascending \<open>id\<close> order, the order of \<open>findAll({order: [['id', 'ASC']]})\<close>.
\<close>

record snapshot =
  raw_json :: json
  signature :: string
  x42_address :: string
  epix_address :: string
  snapshot_balance :: int

section \<open>GET /download-csv: the redistribution\<close>

definition TOTAL_SUPPLY :: int where
  "TOTAL_SUPPLY = 23689538"

text \<open>
  \<open>TARGET_BALANCE = TOTAL_SUPPLY / 2\<close> is the exact number 11844769 (the supply is even) and
  \<open>TARGET_BALANCE * 100000000\<close> stays below \<open>2^53\<close>, so \<open>BigInt(...)\<close> receives an exact integer.
\<close>

definition TARGET_BALANCE_SATS :: int where
  "TARGET_BALANCE_SATS = (TOTAL_SUPPLY div 2) * 100000000"

text \<open>
  BigInt division truncates toward zero and throws a RangeError on a zero divisor
  (\<open>None\<close> here).
\<close>

definition bigint_div :: "int \<Rightarrow> int \<Rightarrow> int option" where
  "bigint_div a b = (if b = 0 then None else Some (a sdiv b))"

text \<open>
  \<open>aggregatedBalances\<close> is a JavaScript \<open>Map\<close>: \<open>set\<close> on an existing key replaces the
  value in place, \<open>set\<close> on a new key appends it, and iteration follows insertion order.
\<close>

fun map_set :: "(string \<times> int) list \<Rightarrow> string \<Rightarrow> int \<Rightarrow> (string \<times> int) list" where
  "map_set [] k v = [(k, v)]"
| "map_set ((k', v') # m) k v =
     (if k' = k then (k, v) # m else (k', v') # map_set m k v)"

text \<open>\<open>aggregatedBalances.get(addr) || 0n\<close>: a missing key and a stored \<open>0n\<close> both give \<open>0n\<close>.\<close>

definition map_get_or_0 :: "(string \<times> int) list \<Rightarrow> string \<Rightarrow> int" where
  "map_get_or_0 m k = (case map_of m k of None \<Rightarrow> 0 | Some b \<Rightarrow> b)"

definition aggregate_step :: "(string \<times> int) list \<Rightarrow> snapshot \<Rightarrow> (string \<times> int) list" where
  "aggregate_step m s =
     (let currentBalance = snapshot_balance s;
          existingBalance = map_get_or_0 m (epix_address s)
      in map_set m (epix_address s) (existingBalance + currentBalance))"

text \<open>\<open>snapshots.forEach(...)\<close> followed by \<open>Array.from(aggregatedBalances.entries())\<close>.\<close>

definition aggregatedEntries :: "snapshot list \<Rightarrow> (string \<times> int) list" where
  "aggregatedEntries snapshots = foldl aggregate_step [] snapshots"

definition totalClaimedRaw :: "(string \<times> int) list \<Rightarrow> int" where
  "totalClaimedRaw entries = foldl (\<lambda>sum balance. sum + balance) 0 (map snd entries)"

text \<open>
  The multiplier, for a cap \<open>target\<close> (the route uses \<open>TARGET_BALANCE_SATS\<close>).
\<close>

definition multiplierBigInt :: "int \<Rightarrow> int \<Rightarrow> int option" where
  "multiplierBigInt target totalClaimed =
     (if totalClaimed > target then bigint_div (target * 100000000) totalClaimed
      else Some 100000000)"

text \<open>
  The callback of \<open>aggregatedEntries.map\<close>, identical in the detailed and the simple
  branch: \<open>acc\<close> is the mutable \<open>totalFinalBalance\<close>, and \<open>index === lastIndex\<close> holds
  exactly at the entry with nothing after it.
\<close>

fun finalBalances :: "int \<Rightarrow> int \<Rightarrow> int \<Rightarrow> (string \<times> int) list \<Rightarrow> (string \<times> int) list" where
  "finalBalances target mult acc [] = []"
| "finalBalances target mult acc ((epixAddress, originalBalance) # rest) =
     (let scaled = (originalBalance * mult) sdiv 100000000;
          remaining = target - acc;
          finalBalance = (if rest = [] \<and> remaining > 0 then remaining else scaled)
      in (epixAddress, finalBalance) # finalBalances target mult (acc + finalBalance) rest)"

text \<open>
  The redistribution for a cap \<open>target\<close>: \<open>None\<close> is the RangeError of the multiplier's
  division, which the route's \<open>catch\<close> turns into a 500 response.
\<close>

definition redistribute :: "int \<Rightarrow> snapshot list \<Rightarrow> (string \<times> int) list option" where
  "redistribute target snapshots =
     (let entries = aggregatedEntries snapshots
      in case multiplierBigInt target (totalClaimedRaw entries) of
           None \<Rightarrow> None
         | Some mult \<Rightarrow> Some (finalBalances target mult 0 entries))"

definition download_csv_balances :: "snapshot list \<Rightarrow> (string \<times> int) list option" where
  "download_csv_balances snapshots = redistribute TARGET_BALANCE_SATS snapshots"

text \<open>
  For comparison only, the redistribution as the specification words it: the same
  computation with the destinations taken in ascending order of their address.
\<close>

definition address_sorted_balances :: "snapshot list \<Rightarrow> (string \<times> int) list option" where
  "address_sorted_balances snapshots =
     (let entries = sort_key fst (aggregatedEntries snapshots)
      in case multiplierBigInt TARGET_BALANCE_SATS (totalClaimedRaw entries) of
           None \<Rightarrow> None
         | Some mult \<Rightarrow> Some (finalBalances TARGET_BALANCE_SATS mult 0 entries))"

text \<open>A row with the two columns the simple export reads.\<close>

definition claim :: "string \<Rightarrow> int \<Rightarrow> snapshot" where
  "claim epix bal =
     \<lparr>raw_json = JNull, signature = [], x42_address = [], epix_address = epix,
      snapshot_balance = bal\<rparr>"

section \<open>CSV fields\<close>

definition comma :: char where
  "comma = CHR '',''"

definition dquote :: char where
  "dquote = CHR 0x22"

definition LF :: char where
  "LF = CHR 0x0A"

definition CR :: char where
  "CR = CHR 0x0D"

text \<open>\<open>stringField.replace(/"/g, '""')\<close>: every double quote is written twice.\<close>

fun replace_dquotes :: "string \<Rightarrow> string" where
  "replace_dquotes [] = []"
| "replace_dquotes (c # cs) =
     (if c = dquote then dquote # dquote # replace_dquotes cs else c # replace_dquotes cs)"

text \<open>
  \<open>escapeCsvField(field)\<close>. \<open>None\<close> is \<open>null\<close> or \<open>undefined\<close>; the export passes strings,
  on which \<open>String(field)\<close> is the identity.
\<close>

definition escapeCsvField :: "string option \<Rightarrow> string" where
  "escapeCsvField field =
     (case field of
        None \<Rightarrow> []
      | Some stringField \<Rightarrow>
          if comma \<in> set stringField \<or> dquote \<in> set stringField
             \<or> LF \<in> set stringField \<or> CR \<in> set stringField
          then dquote # replace_dquotes stringField @ [dquote]
          else stringField)"

text \<open>\<open>Array.prototype.join\<close> with a separator.\<close>

fun join :: "string \<Rightarrow> string list \<Rightarrow> string" where
  "join sep [] = []"
| "join sep [x] = x"
| "join sep (x # y # ys) = x @ sep @ join sep (y # ys)"

text \<open>One row of the export: the escaped fields joined by commas.\<close>

definition csv_row :: "string list \<Rightarrow> string" where
  "csv_row cells = join [comma] (map (\<lambda>f. escapeCsvField (Some f)) cells)"

text \<open>
  The reader's side, following the standard CSV grammar (RFC 4180) for one record: a field
  is either quoted, with a doubled quote standing for one quote, or unquoted, in which case
  it holds no quote and no line break; fields are separated by commas. \<open>None\<close> is a
  malformed record.
\<close>

datatype csv_state = FieldStart | Unquoted | Quoted | QuoteSeen

fun csv_parse_record :: "csv_state \<Rightarrow> string \<Rightarrow> string \<Rightarrow> string list option" where
  "csv_parse_record Quoted cur [] = None"
| "csv_parse_record st cur [] = Some [cur]"
| "csv_parse_record FieldStart cur (c # cs) =
     (if c = dquote then csv_parse_record Quoted [] cs
      else if c = comma then map_option ((#) []) (csv_parse_record FieldStart [] cs)
      else if c = LF \<or> c = CR then None
      else csv_parse_record Unquoted [c] cs)"
| "csv_parse_record Unquoted cur (c # cs) =
     (if c = comma then map_option ((#) cur) (csv_parse_record FieldStart [] cs)
      else if c = dquote \<or> c = LF \<or> c = CR then None
      else csv_parse_record Unquoted (cur @ [c]) cs)"
| "csv_parse_record Quoted cur (c # cs) =
     (if c = dquote then csv_parse_record QuoteSeen cur cs
      else csv_parse_record Quoted (cur @ [c]) cs)"
| "csv_parse_record QuoteSeen cur (c # cs) =
     (if c = dquote then csv_parse_record Quoted (cur @ [dquote]) cs
      else if c = comma then map_option ((#) cur) (csv_parse_record FieldStart [] cs)
      else None)"

definition csv_read_row :: "string \<Rightarrow> string list option" where
  "csv_read_row line = csv_parse_record FieldStart [] line"

section \<open>POST /verify-snapshot\<close>

subsection \<open>JavaScript values\<close>

text \<open>Truthiness, as \<open>!v\<close> tests it.\<close>

fun truthy :: "jsval \<Rightarrow> bool" where
  "truthy None = False"
| "truthy (Some JNull) = False"
| "truthy (Some (JBool b)) = b"
| "truthy (Some (JNum n)) = (n \<noteq> 0)"
| "truthy (Some (JStr s)) = (s \<noteq> [])"
| "truthy (Some (JArr xs)) = True"
| "truthy (Some (JObj kvs)) = True"

text \<open>An evaluation that may throw.\<close>

datatype 'a attempt = Threw | Got 'a

text \<open>
  Reading a property \<open>v.name\<close>: a TypeError on \<open>undefined\<close> and \<open>null\<close>, the own property of
  an object, and \<open>undefined\<close> on any other value (the names read here, \<open>tipHeight\<close>,
  \<open>balances\<close> and \<open>balance\<close>, are no built-in properties).
\<close>

fun get_prop :: "jsval \<Rightarrow> string \<Rightarrow> jsval attempt" where
  "get_prop None name = Threw"
| "get_prop (Some JNull) name = Threw"
| "get_prop (Some (JObj kvs)) name = Got (map_of kvs name)"
| "get_prop (Some v) name = Got None"

text \<open>Reading \<open>v[0]\<close>: the first element of an array, the first character of a string.\<close>

fun get_index0 :: "jsval \<Rightarrow> jsval attempt" where
  "get_index0 None = Threw"
| "get_index0 (Some JNull) = Threw"
| "get_index0 (Some (JArr xs)) = Got (case xs of [] \<Rightarrow> None | x # rest \<Rightarrow> Some x)"
| "get_index0 (Some (JObj kvs)) = Got (map_of kvs ''0'')"
| "get_index0 (Some (JStr s)) = Got (case s of [] \<Rightarrow> None | c # rest \<Rightarrow> Some (JStr [c]))"
| "get_index0 (Some v) = Got None"

text \<open>
  Strict equality \<open>===\<close>. Two objects or arrays that come from two different parses (the
  request body and a reply of the node) are never the same reference.
\<close>

fun strict_eq :: "jsval \<Rightarrow> jsval \<Rightarrow> bool" where
  "strict_eq None None = True"
| "strict_eq (Some JNull) (Some JNull) = True"
| "strict_eq (Some (JBool a)) (Some (JBool b)) = (a = b)"
| "strict_eq (Some (JNum a)) (Some (JNum b)) = (a = b)"
| "strict_eq (Some (JStr a)) (Some (JStr b)) = (a = b)"
| "strict_eq v w = False"

text \<open>
  Loose equality \<open>v == n\<close> with a number. \<open>toNumber\<close> stands for the conversion of the
  language runtime (\<open>ToNumber(ToPrimitive(v))\<close>, \<open>None\<close> for \<open>NaN\<close>) on strings, arrays and
  objects.
\<close>

fun loose_eq_number :: "(json \<Rightarrow> rat option) \<Rightarrow> jsval \<Rightarrow> rat \<Rightarrow> bool" where
  "loose_eq_number toNumber None n = False"
| "loose_eq_number toNumber (Some JNull) n = False"
| "loose_eq_number toNumber (Some (JBool b)) n = ((if b then 1 else 0) = n)"
| "loose_eq_number toNumber (Some (JNum a)) n = (a = n)"
| "loose_eq_number toNumber (Some v) n = (toNumber v = Some n)"

subsection \<open>Request, environment, response\<close>

text \<open>
  \<open>req.body\<close> as \<open>bodyParser.json()\<close> delivers it (an object or an array) and
  \<open>req.headers['signature']\<close>.
\<close>

record request =
  body :: json
  signature_header :: "string option"

text \<open>\<open>const { x42_address, epix_address, snapshot_balance } = req.body\<close>.\<close>

definition body_field :: "json \<Rightarrow> string \<Rightarrow> jsval" where
  "body_field b name = (case b of JObj kvs \<Rightarrow> map_of kvs name | _ \<Rightarrow> None)"

text \<open>
  An \<open>axios\<close> call either rejects (no connection, timeout, a status outside 2xx) or
  resolves with \<open>response.data\<close>.
\<close>

datatype 'a reply = Rejects | Resolves 'a

text \<open>
  What the world outside answers while one request is handled: the replies of the node,
  the clock (milliseconds since the epoch), the database and the Discord webhook. Every
  call is taken to settle; the handler sets no timeout of its own.

  Of the database the model fixes what the \<open>Snapshot\<close> model and its column types fix.
  What is left to the database is an input: \<open>findOne_fails\<close> and \<open>create_fails\<close> are its
  faults, \<open>where_matches v a\<close> tells whether a stored address \<open>a\<close> satisfies a \<open>where\<close> value
  \<open>v\<close> that is no string, \<open>number_text\<close> is the text a STRING column holds for a number, and
  \<open>bigint_of_text\<close> is the BIGINT it reads from a text (\<open>None\<close> when it refuses the text).
\<close>

record env =
  toNumber :: "json \<Rightarrow> rat option"
  tip_reply :: "jsval reply"
  now :: int
  findOne_fails :: bool
  where_matches :: "json \<Rightarrow> string \<Rightarrow> bool"
  balance_reply :: "jsval reply"
  verify_reply :: "jsval reply"
  create_fails :: bool
  number_text :: "rat \<Rightarrow> string"
  bigint_of_text :: "string \<Rightarrow> int option"
  webhook_configured :: bool
  webhook_post_ok :: bool

datatype response_body = Error string | Message string

type_synonym response = "nat \<times> response_body"

datatype effect =
    ChainGetTip
  | DbFindOne jsval
  | ChainGetBalance jsval
  | ChainVerifyMessage string jsval json
  | DbCreate json string jsval jsval jsval
  | WebhookPost jsval jsval
  | ConsoleWarn string
  | ConsoleError string

text \<open>Control inside the \<open>try\<close> block: go on, \<open>return res.status(...)\<close>, or throw.\<close>

datatype 'a step = Next 'a | Return response | Throw

definition and_then ::
  "effect list \<times> 'a step \<Rightarrow> ('a \<Rightarrow> effect list \<times> 'b step) \<Rightarrow> effect list \<times> 'b step" where
  "and_then m f =
     (case m of
        (es, Next a) \<Rightarrow> (case f a of (es', r) \<Rightarrow> (es @ es', r))
      | (es, Return r) \<Rightarrow> (es, Return r)
      | (es, Throw) \<Rightarrow> (es, Throw))"

subsection \<open>The checks, in the order of the handler\<close>

definition missing_signature :: "request \<Rightarrow> bool" where
  "missing_signature req =
     (case signature_header req of None \<Rightarrow> True | Some s \<Rightarrow> s = [])"

text \<open>Check block height first.\<close>

definition check_block_height :: "env \<Rightarrow> unit step" where
  "check_block_height e =
     (case tip_reply e of
        Rejects \<Rightarrow> Throw
      | Resolves data \<Rightarrow>
          if \<not> truthy data then Return (400, Error ''Unable to retrieve block height'')
          else (case get_prop data ''tipHeight'' of
                  Threw \<Rightarrow> Throw
                | Got tipHeight \<Rightarrow>
                    if \<not> truthy tipHeight
                    then Return (400, Error ''Unable to retrieve block height'')
                    else if \<not> loose_eq_number (toNumber e) tipHeight 3000000
                    then Return (400, Error ''Block height must be at 3,000,000 blocks'')
                    else Next ()))"

text \<open>\<open>new Date('2025-06-06T00:00:00Z')\<close> in milliseconds since the epoch.\<close>

definition claimDeadline :: int where
  "claimDeadline = 1749168000000"

definition check_deadline :: "env \<Rightarrow> unit step" where
  "check_deadline e =
     (if now e > claimDeadline
      then Return (400, Error
        ''Claim period has ended. The deadline was June 6th, 2025 at 00:00:00 UTC'')
      else Next ())"

text \<open>
  \<open>Snapshot.findOne({ where: { x42_address } })\<close>: the first row of that address. The call
  throws on a fault of the database and on an \<open>undefined\<close> value in \<open>where\<close>; \<open>null\<close> asks for
  rows without an address, of which the table has none (\<open>allowNull: false\<close>).
\<close>

definition Snapshot_findOne :: "env \<Rightarrow> snapshot list \<Rightarrow> jsval \<Rightarrow> snapshot option attempt" where
  "Snapshot_findOne e store x42 =
     (if findOne_fails e then Threw
      else (case x42 of
              None \<Rightarrow> Threw
            | Some JNull \<Rightarrow> Got None
            | Some (JStr a) \<Rightarrow> Got (find (\<lambda>row. x42_address row = a) store)
            | Some v \<Rightarrow> Got (find (\<lambda>row. where_matches e v (x42_address row)) store)))"

definition check_duplicate :: "env \<Rightarrow> snapshot list \<Rightarrow> jsval \<Rightarrow> unit step" where
  "check_duplicate e store x42 =
     (case Snapshot_findOne e store x42 of
        Threw \<Rightarrow> Throw
      | Got (Some existingSnapshot) \<Rightarrow>
          Return (400, Error ''Duplicate address. Snapshot was already verified.'')
      | Got None \<Rightarrow> Next ())"

text \<open>\<open>const { balance } = balanceResponse.data.balances[0]\<close>.\<close>

definition read_balance :: "jsval \<Rightarrow> jsval attempt" where
  "read_balance data =
     (case get_prop data ''balances'' of
        Threw \<Rightarrow> Threw
      | Got balances \<Rightarrow>
          (case get_index0 balances of
             Threw \<Rightarrow> Threw
           | Got first \<Rightarrow> get_prop first ''balance''))"

definition check_balance :: "env \<Rightarrow> jsval \<Rightarrow> unit step" where
  "check_balance e snapshot_balance' =
     (case balance_reply e of
        Rejects \<Rightarrow> Throw
      | Resolves data \<Rightarrow>
          (case read_balance data of
             Threw \<Rightarrow> Throw
           | Got balance \<Rightarrow>
               if \<not> strict_eq balance snapshot_balance'
               then Return (400, Error ''Balance verification failed'')
               else Next ()))"

definition check_signature :: "env \<Rightarrow> unit step" where
  "check_signature e =
     (case verify_reply e of
        Rejects \<Rightarrow> Throw
      | Resolves data \<Rightarrow>
          if \<not> strict_eq data (Some (JStr ''True''))
          then Return (400, Error ''Signature verification failed'')
          else Next ())"

subsection \<open>The store\<close>

text \<open>
  What a STRING column with \<open>allowNull: false\<close> holds for a value: a string as it is, a
  number or a boolean as its text; \<open>null\<close> and \<open>undefined\<close> are refused, and so are arrays
  and objects (the model's validation of string attributes). \<open>None\<close> is a refusal.
\<close>

definition column_string :: "env \<Rightarrow> jsval \<Rightarrow> string option" where
  "column_string e v =
     (case v of
        Some (JStr s) \<Rightarrow> Some s
      | Some (JNum q) \<Rightarrow> Some (number_text e q)
      | Some (JBool b) \<Rightarrow> Some (if b then ''true'' else ''false'')
      | _ \<Rightarrow> None)"

text \<open>
  What the BIGINT column with \<open>allowNull: false\<close> holds for a value: an integral number
  within the 64-bit range, or the database's reading of a text.
\<close>

definition column_bigint :: "env \<Rightarrow> jsval \<Rightarrow> int option" where
  "column_bigint e v =
     (case v of
        Some (JNum q) \<Rightarrow>
          if of_int \<lfloor>q\<rfloor> = q \<and> - (2 ^ 63) \<le> \<lfloor>q\<rfloor> \<and> \<lfloor>q\<rfloor> < 2 ^ 63 then Some \<lfloor>q\<rfloor> else None
      | Some (JStr s) \<Rightarrow>
          (case bigint_of_text e s of
             Some n \<Rightarrow> if - (2 ^ 63) \<le> n \<and> n < 2 ^ 63 then Some n else None
           | None \<Rightarrow> None)
      | _ \<Rightarrow> None)"

text \<open>
  \<open>Snapshot.create\<close>. The model of the table declares no unique constraint: a row is
  appended whenever every value fits its column and the database does not fail. \<open>None\<close>
  is a thrown error.
\<close>

definition to_row ::
  "env \<Rightarrow> json \<Rightarrow> string \<Rightarrow> jsval \<Rightarrow> jsval \<Rightarrow> jsval \<Rightarrow> snapshot option" where
  "to_row e raw sig x42 epix bal =
     (case (column_string e x42, column_string e epix, column_bigint e bal) of
        (Some a, Some b, Some n) \<Rightarrow>
          Some \<lparr>raw_json = raw, signature = sig, x42_address = a, epix_address = b,
                snapshot_balance = n\<rparr>
      | _ \<Rightarrow> None)"

definition Snapshot_create ::
  "env \<Rightarrow> snapshot list \<Rightarrow> json \<Rightarrow> string \<Rightarrow> jsval \<Rightarrow> jsval \<Rightarrow> jsval \<Rightarrow> snapshot list option" where
  "Snapshot_create e store raw sig x42 epix bal =
     (if create_fails e then None
      else map_option (\<lambda>row. store @ [row]) (to_row e raw sig x42 epix bal))"

subsection \<open>The notification (utils/discord.js)\<close>

text \<open>
  \<open>sendSnapshotVerificationNotification(x42Address, snapshotBalance)\<close>: the effects it has
  before its promise settles, those it has afterwards, and the value it resolves to. It
  catches every error of its own, so the promise never rejects.
\<close>

definition sendSnapshotVerificationNotification ::
  "env \<Rightarrow> jsval \<Rightarrow> jsval \<Rightarrow> effect list \<times> effect list \<times> bool" where
  "sendSnapshotVerificationNotification e x42Address snapshotBalance =
     (if \<not> webhook_configured e
      then ([ConsoleWarn ''Discord webhook URL not configured, skipping notification''], [], False)
      else if webhook_post_ok e
      then ([WebhookPost x42Address snapshotBalance], [], True)
      else ([WebhookPost x42Address snapshotBalance],
            [ConsoleError ''Failed to send Discord webhook:''], False))"

subsection \<open>The handler\<close>

text \<open>
  The result of one request: the response, the store afterwards, the effects up to the
  response and the effects after it.
\<close>

record outcome =
  response :: response
  store_after :: "snapshot list"
  effects_before :: "effect list"
  effects_after :: "effect list"

text \<open>
  The part of the \<open>try\<close> block before \<open>Snapshot.create\<close>: the five checks after the
  signature test, each with the call it makes.
\<close>

definition verify_checks :: "env \<Rightarrow> request \<Rightarrow> snapshot list \<Rightarrow> effect list \<times> unit step" where
  "verify_checks e req store =
     (let x42_address' = body_field (body req) ''x42_address'';
          snapshot_balance' = body_field (body req) ''snapshot_balance'';
          signature' = (case signature_header req of None \<Rightarrow> [] | Some s \<Rightarrow> s)
      in and_then ([ChainGetTip], check_block_height e) (\<lambda>_.
         and_then ([], check_deadline e) (\<lambda>_.
         and_then ([DbFindOne x42_address'], check_duplicate e store x42_address') (\<lambda>_.
         and_then ([ChainGetBalance x42_address'], check_balance e snapshot_balance') (\<lambda>_.
         ([ChainVerifyMessage signature' x42_address' (body req)], check_signature e))))))"

text \<open>
  From \<open>Snapshot.create\<close> on: the insert, the notification that is not awaited, and the
  response. The \<open>then\<close> callback of the notification runs after the response.
\<close>

definition verify_commit :: "env \<Rightarrow> request \<Rightarrow> snapshot list \<Rightarrow> outcome" where
  "verify_commit e req store =
     (let x42_address' = body_field (body req) ''x42_address'';
          epix_address' = body_field (body req) ''epix_address'';
          snapshot_balance' = body_field (body req) ''snapshot_balance'';
          signature' = (case signature_header req of None \<Rightarrow> [] | Some s \<Rightarrow> s);
          create = DbCreate (body req) signature' x42_address' epix_address' snapshot_balance'
      in case Snapshot_create e store (body req) signature' x42_address' epix_address'
                snapshot_balance' of
           None \<Rightarrow>
             \<lparr>response = (500, Error ''Internal server error''), store_after = store,
              effects_before = [create, ConsoleError ''error''], effects_after = []\<rparr>
         | Some store' \<Rightarrow>
             (case sendSnapshotVerificationNotification e x42_address' snapshot_balance' of
                (started, settled, success) \<Rightarrow>
                  \<lparr>response = (200, Message ''Snapshot verified and stored successfully''),
                   store_after = store',
                   effects_before = create # started,
                   effects_after = settled @
                     (if \<not> success
                      then [ConsoleWarn ''Discord notification failed for address:'']
                      else [])\<rparr>))"

text \<open>The handler of \<open>app.post('/verify-snapshot', ...)\<close>.\<close>

definition verify_snapshot :: "env \<Rightarrow> request \<Rightarrow> snapshot list \<Rightarrow> outcome" where
  "verify_snapshot e req store =
     (if missing_signature req
      then \<lparr>response = (400, Error ''Signature is required''), store_after = store,
            effects_before = [], effects_after = []\<rparr>
      else (case verify_checks e req store of
              (es, Return r) \<Rightarrow>
                \<lparr>response = r, store_after = store, effects_before = es, effects_after = []\<rparr>
            | (es, Throw) \<Rightarrow>
                \<lparr>response = (500, Error ''Internal server error''), store_after = store,
                 effects_before = es @ [ConsoleError ''error''], effects_after = []\<rparr>
            | (es, Next _) \<Rightarrow>
                (let committed = verify_commit e req store
                 in committed\<lparr>effects_before := es @ effects_before committed\<rparr>)))"

subsection \<open>Names for the statements\<close>

abbreviation req_x42_address :: "request \<Rightarrow> jsval" where
  "req_x42_address req \<equiv> body_field (body req) ''x42_address''"

abbreviation req_epix_address :: "request \<Rightarrow> jsval" where
  "req_epix_address req \<equiv> body_field (body req) ''epix_address''"

abbreviation req_snapshot_balance :: "request \<Rightarrow> jsval" where
  "req_snapshot_balance req \<equiv> body_field (body req) ''snapshot_balance''"

abbreviation req_signature :: "request \<Rightarrow> string" where
  "req_signature req \<equiv> (case signature_header req of None \<Rightarrow> [] | Some s \<Rightarrow> s)"

text \<open>The verdicts of the five checks that follow the signature test, in the handler's order.\<close>

definition checks_in_order :: "env \<Rightarrow> request \<Rightarrow> snapshot list \<Rightarrow> unit step list" where
  "checks_in_order e req store =
     [check_block_height e, check_deadline e,
      check_duplicate e store (req_x42_address req),
      check_balance e (req_snapshot_balance req),
      check_signature e]"

text \<open>The calls of the four checks that make one, in the handler's order.\<close>

definition calls_in_order :: "request \<Rightarrow> effect list" where
  "calls_in_order req =
     [ChainGetTip, DbFindOne (req_x42_address req), ChainGetBalance (req_x42_address req),
      ChainVerifyMessage (req_signature req) (req_x42_address req) (body req)]"

text \<open>
  A request and an environment in which every check passes: the indexer stands at block
  3000000, the clock is before the deadline, the node reports the claimed balance and
  confirms the signature, and the webhook is configured and answers.
\<close>

definition sample_request :: request where
  "sample_request =
     \<lparr>body = JObj [(''x42_address'', JStr ''XG9pb7U3''), (''epix_address'', JStr ''epix1r2357''),
                   (''snapshot_balance'', JNum 69223563046)],
      signature_header = Some ''H1sig''\<rparr>"

definition sample_env :: env where
  "sample_env =
     \<lparr>toNumber = (\<lambda>v. None),
      tip_reply = Resolves (Some (JObj [(''tipHash'', JStr ''180d965f''), (''tipHeight'', JNum 3000000)])),
      now = 1740000000000,
      findOne_fails = False,
      where_matches = (\<lambda>v a. False),
      balance_reply = Resolves (Some (JObj [(''balances'',
        JArr [JObj [(''address'', JStr ''XG9pb7U3''), (''balance'', JNum 69223563046)]])])),
      verify_reply = Resolves (Some (JStr ''True'')),
      create_fails = False,
      number_text = (\<lambda>q. []),
      bigint_of_text = (\<lambda>s. None),
      webhook_configured = True,
      webhook_post_ok = True\<rparr>"

definition sample_row :: snapshot where
  "sample_row =
     \<lparr>raw_json = body sample_request, signature = ''H1sig'', x42_address = ''XG9pb7U3'',
      epix_address = ''epix1r2357'', snapshot_balance = 69223563046\<rparr>"

section \<open>Lemmas on the redistribution\<close>

lemma sdiv_nonneg: "0 \<le> a \<Longrightarrow> 0 < b \<Longrightarrow> a sdiv b = a div (b::int)"
  by (simp add: signed_divide_int_def sgn_if)

lemma map_set_keys:
  "map fst (map_set m k v) = (if k \<in> set (map fst m) then map fst m else map fst m @ [k])"
  by (induction m) force+

lemma map_set_sum:
  "sum_list (map snd (map_set m k (map_get_or_0 m k + b))) = sum_list (map snd m) + b"
  by (induction m) (auto simp: map_get_or_0_def)

lemma map_set_nonneg:
  "\<forall>e\<in>set m. 0 \<le> snd e \<Longrightarrow> 0 \<le> v \<Longrightarrow> \<forall>e\<in>set (map_set m k v). 0 \<le> snd e"
  by (induction m) (fastforce split: if_splits)+

lemma map_get_or_0_nonneg:
  "\<forall>e\<in>set m. 0 \<le> snd e \<Longrightarrow> 0 \<le> map_get_or_0 m k"
  by (fastforce simp: map_get_or_0_def split: option.splits dest: map_of_SomeD)

lemma aggregate_step_keys:
  "map fst (aggregate_step m s) =
     (if epix_address s \<in> set (map fst m) then map fst m else map fst m @ [epix_address s])"
  by (simp add: aggregate_step_def map_set_keys)

lemma aggregate_step_sum:
  "sum_list (map snd (aggregate_step m s)) = sum_list (map snd m) + snapshot_balance s"
  by (simp add: aggregate_step_def map_set_sum)

lemma aggregate_step_nonneg:
  "\<forall>e\<in>set m. 0 \<le> snd e \<Longrightarrow> 0 \<le> snapshot_balance s \<Longrightarrow>
   \<forall>e\<in>set (aggregate_step m s). 0 \<le> snd e"
  unfolding aggregate_step_def Let_def
  by (rule map_set_nonneg) (auto dest: map_get_or_0_nonneg [where k = "epix_address s"])

lemma first_seen_skip:
  "k \<in> set ks \<Longrightarrow> rev (remdups (rev (ks @ k # rest))) = rev (remdups (rev (ks @ rest)))"
proof -
  assume "k \<in> set ks"
  have "remdups (rev rest @ (k # rev ks)) = remdups (rev rest @ remdups (k # rev ks))"
    by (rule remdups_append2 [symmetric])
  also have "\<dots> = remdups (rev rest @ remdups (rev ks))"
    using \<open>k \<in> set ks\<close> by simp
  also have "\<dots> = remdups (rev rest @ rev ks)"
    by (rule remdups_append2)
  finally show ?thesis by simp
qed

lemma foldl_aggregate_keys:
  "distinct (map fst m) \<Longrightarrow>
   map fst (foldl aggregate_step m snaps) = rev (remdups (rev (map fst m @ map epix_address snaps)))"
proof (induction snaps arbitrary: m)
  case Nil
  then show ?case by (simp add: distinct_remdups_id)
next
  case (Cons s snaps)
  have d: "distinct (map fst (aggregate_step m s))"
    using Cons.prems by (simp add: aggregate_step_keys)
  show ?case
  proof (cases "epix_address s \<in> set (map fst m)")
    case True
    then show ?thesis
      using Cons.IH [OF d] first_seen_skip [OF True, of "map epix_address snaps"]
      by (simp add: aggregate_step_keys del: rev_append)
  next
    case False
    then show ?thesis
      using Cons.IH [OF d] by (simp add: aggregate_step_keys del: rev_append)
  qed
qed

lemma foldl_aggregate_sum:
  "sum_list (map snd (foldl aggregate_step m snaps)) =
     sum_list (map snd m) + sum_list (map snapshot_balance snaps)"
  by (induction snaps arbitrary: m) (simp_all add: aggregate_step_sum)

lemma foldl_aggregate_nonneg:
  "\<forall>e\<in>set m. 0 \<le> snd e \<Longrightarrow> \<forall>s\<in>set snaps. 0 \<le> snapshot_balance s \<Longrightarrow>
   \<forall>e\<in>set (foldl aggregate_step m snaps). 0 \<le> snd e"
proof (induction snaps arbitrary: m)
  case Nil
  then show ?case by simp
next
  case (Cons s snaps)
  from Cons.prems have "\<forall>e\<in>set (aggregate_step m s). 0 \<le> snd e"
    by (intro aggregate_step_nonneg) simp_all
  with Cons show ?case by simp
qed

lemma aggregatedEntries_keys:
  "map fst (aggregatedEntries snaps) = rev (remdups (rev (map epix_address snaps)))"
  using foldl_aggregate_keys [of "[]" snaps] by (simp add: aggregatedEntries_def)

lemma aggregatedEntries_distinct: "distinct (map fst (aggregatedEntries snaps))"
  by (simp add: aggregatedEntries_keys)

lemma aggregatedEntries_key_set: "fst ` set (aggregatedEntries snaps) = epix_address ` set snaps"
proof -
  have "set (map fst (aggregatedEntries snaps)) = set (map epix_address snaps)"
    by (simp only: aggregatedEntries_keys set_rev set_remdups)
  then show ?thesis by simp
qed

lemma aggregatedEntries_sum:
  "sum_list (map snd (aggregatedEntries snaps)) = sum_list (map snapshot_balance snaps)"
  using foldl_aggregate_sum [of "[]" snaps] by (simp add: aggregatedEntries_def)

lemma aggregatedEntries_nonneg:
  "\<forall>s\<in>set snaps. 0 \<le> snapshot_balance s \<Longrightarrow> \<forall>e\<in>set (aggregatedEntries snaps). 0 \<le> snd e"
  using foldl_aggregate_nonneg [of "[]" snaps] by (simp add: aggregatedEntries_def)

lemma aggregatedEntries_nonempty: "snaps \<noteq> [] \<Longrightarrow> aggregatedEntries snaps \<noteq> []"
proof
  assume "snaps \<noteq> []" "aggregatedEntries snaps = []"
  then have "fst ` set (aggregatedEntries snaps) = {}" by simp
  then show False using \<open>snaps \<noteq> []\<close> by (simp add: aggregatedEntries_key_set)
qed

lemma totalClaimedRaw_sum: "totalClaimedRaw entries = sum_list (map snd entries)"
proof -
  have "foldl (\<lambda>sum balance. sum + balance) a xs = a + sum_list xs" for a :: int and xs
    by (induction xs arbitrary: a) simp_all
  then show ?thesis by (simp add: totalClaimedRaw_def)
qed

lemma scaled_mult_le: "0 \<le> x \<Longrightarrow> (x sdiv 100000000) * 100000000 \<le> (x::int)"
  by (simp add: sdiv_nonneg)


lemma finalBalances_conserve:
  assumes "es \<noteq> []" "\<forall>e\<in>set es. 0 \<le> snd e" "0 \<le> m"
    "m * sum_list (map snd es) \<le> (T - acc) * 100000000"
  shows "acc + sum_list (map snd (finalBalances T m acc es)) = T"
  using assms
proof (induction es arbitrary: acc)
  case Nil
  then show ?case by simp
next
  case (Cons e rest)
  obtain a o' where e: "e = (a, o')" by (cases e)
  from Cons.prems e have o_nonneg: "0 \<le> o'" by simp
  with \<open>0 \<le> m\<close> have om: "0 \<le> o' * m" by simp
  show ?case
  proof (cases "rest = []")
    case True
    show ?thesis
    proof (cases "T - acc > 0")
      case True
      with \<open>rest = []\<close> e show ?thesis by simp
    next
      case False
      from Cons.prems(4) e \<open>rest = []\<close> have "m * o' \<le> (T - acc) * 100000000" by simp
      with om have "0 \<le> (T - acc) * 100000000" by (simp add: mult.commute)
      then have "0 \<le> T - acc" by simp
      with False have eq: "T - acc = 0" by simp
      with \<open>m * o' \<le> (T - acc) * 100000000\<close> om have "o' * m = 0" by (simp add: mult.commute)
      then have "(o' * m) sdiv 100000000 = 0" by (simp only: sdiv_int_0_div)
      with \<open>rest = []\<close> e False eq show ?thesis by (simp del: mult_eq_0_iff)
    qed
  next
    case False
    define scaled where "scaled = (o' * m) sdiv 100000000"
    have le: "scaled * 100000000 \<le> o' * m"
      unfolding scaled_def using om by (rule scaled_mult_le)
    from Cons.prems(4) e have "m * o' + m * sum_list (map snd rest) \<le> (T - acc) * 100000000"
      by (simp add: distrib_left)
    with le have room: "m * sum_list (map snd rest) \<le> (T - (acc + scaled)) * 100000000"
      by (simp add: algebra_simps)
    from Cons.prems have "\<forall>e\<in>set rest. 0 \<le> snd e" by simp
    from Cons.IH [OF False this \<open>0 \<le> m\<close> room]
    show ?thesis using False e by (simp add: scaled_def Let_def)
  qed
qed




lemma finalBalances_length [simp]: "length (finalBalances T m acc es) = length es"
  by (induction es arbitrary: acc) (auto simp: Let_def)

lemma finalBalances_keys [simp]: "map fst (finalBalances T m acc es) = map fst es"
  by (induction es arbitrary: acc) (auto simp: Let_def)

lemma finalBalances_nth:
  "Suc i < length es \<Longrightarrow>
   finalBalances T m acc es ! i = (fst (es ! i), (snd (es ! i) * m) sdiv 100000000)"
proof (induction es arbitrary: acc i)
  case Nil
  then show ?case by simp
next
  case (Cons e rest)
  obtain a o' where e: "e = (a, o')" by (cases e)
  from Cons.prems have "rest \<noteq> []" by auto
  show ?case
  proof (cases i)
    case 0
    with e \<open>rest \<noteq> []\<close> show ?thesis by (simp add: Let_def)
  next
    case (Suc j)
    with Cons.prems have "Suc j < length rest" by simp
    from Cons.IH [OF this] Suc e show ?thesis by (simp add: Let_def)
  qed
qed

lemma sdiv_scale_cancel: "(x * 100000000) sdiv 100000000 = (x::int)"
  by (simp add: signed_divide_int_def abs_mult sgn_if)

lemma multiplier_under_cap:
  "totalClaimed \<le> target \<Longrightarrow> multiplierBigInt target totalClaimed = Some 100000000"
  by (simp add: multiplierBigInt_def)

lemma multiplier_over_cap:
  assumes "0 \<le> target" "target < totalClaimed"
  shows "multiplierBigInt target totalClaimed = Some ((target * 100000000) div totalClaimed)"
  using assms by (simp add: multiplierBigInt_def bigint_div_def sdiv_nonneg)

lemma div_mult_le_int: "0 < b \<Longrightarrow> (a div b) * b \<le> (a::int)"
proof -
  assume "0 < b"
  then have "0 \<le> a mod b" by simp
  moreover have "a = a div b * b + a mod b" by simp
  ultimately show ?thesis by linarith
qed

lemma multiplier_over_cap_less:
  fixes target totalClaimed :: int
  assumes "0 \<le> target" "target < totalClaimed"
  shows "(target * 100000000) div totalClaimed < 100000000"
proof (rule ccontr)
  assume "\<not> ?thesis"
  then have "100000000 \<le> (target * 100000000) div totalClaimed" by simp
  moreover have "0 < totalClaimed" using assms by simp
  ultimately have "100000000 * totalClaimed \<le> (target * 100000000) div totalClaimed * totalClaimed"
    by simp
  also have "\<dots> \<le> target * 100000000"
    using \<open>0 < totalClaimed\<close> by (rule div_mult_le_int)
  finally show False using assms by simp
qed

lemma multiplier_room:
  assumes "0 \<le> target" "0 \<le> totalClaimed" "multiplierBigInt target totalClaimed = Some m"
  shows "0 \<le> m \<and> m * totalClaimed \<le> target * 100000000"
proof (cases "target < totalClaimed")
  case True
  with assms have m: "m = (target * 100000000) div totalClaimed"
    by (simp add: multiplier_over_cap)
  from True assms have pos: "0 < totalClaimed" by simp
  have "0 \<le> m" unfolding m using pos assms(1) by (simp add: pos_imp_zdiv_nonneg_iff)
  moreover have "m * totalClaimed \<le> target * 100000000"
    unfolding m using pos by (rule div_mult_le_int)
  ultimately show ?thesis by simp
next
  case False
  with assms have "m = 100000000" by (simp add: multiplierBigInt_def)
  with False show ?thesis by simp
qed

lemma redistribute_conserve:
  assumes "snaps \<noteq> []" "\<forall>s\<in>set snaps. 0 \<le> snapshot_balance s" "0 \<le> target"
    and "redistribute target snaps = Some rows"
  shows "sum_list (map snd rows) = target"
proof -
  let ?es = "aggregatedEntries snaps"
  from assms(4) obtain m where
    m: "multiplierBigInt target (totalClaimedRaw ?es) = Some m"
    and rows: "rows = finalBalances target m 0 ?es"
    by (auto simp: redistribute_def Let_def split: option.splits)
  have nn: "\<forall>e\<in>set ?es. 0 \<le> snd e"
    using assms(2) by (rule aggregatedEntries_nonneg)
  then have "0 \<le> sum_list (map snd ?es)" by (auto intro!: sum_list_nonneg)
  then have "0 \<le> totalClaimedRaw ?es" by (simp add: totalClaimedRaw_sum)
  from multiplier_room [OF assms(3) this m]
  have "0 \<le> m" and "m * sum_list (map snd ?es) \<le> (target - 0) * 100000000"
    by (simp_all add: totalClaimedRaw_sum)
  from finalBalances_conserve [OF aggregatedEntries_nonempty [OF assms(1)] nn this]
  show ?thesis by (simp add: rows)
qed

lemma redistribute_total:
  assumes "0 \<le> target"
  shows "\<exists>m. multiplierBigInt target (totalClaimedRaw (aggregatedEntries snaps)) = Some m \<and>
    redistribute target snaps = Some (finalBalances target m 0 (aggregatedEntries snaps))"
proof (cases "target < totalClaimedRaw (aggregatedEntries snaps)")
  case True
  from multiplier_over_cap [OF assms True] show ?thesis
    by (simp add: redistribute_def Let_def)
next
  case False
  then show ?thesis by (simp add: redistribute_def multiplierBigInt_def Let_def)
qed

lemma TARGET_BALANCE_SATS_value: "TARGET_BALANCE_SATS = 1184476900000000"
  by (simp add: TARGET_BALANCE_SATS_def TOTAL_SUPPLY_def)

lemma TARGET_BALANCE_SATS_nonneg: "0 \<le> TARGET_BALANCE_SATS"
  by (simp add: TARGET_BALANCE_SATS_value)

lemma scaled_le_original:
  assumes "0 \<le> x" "m \<le> 100000000"
  shows "(x * m) sdiv 100000000 \<le> (x::int)"
proof (cases "0 \<le> x * m")
  case True
  have "x * m \<le> x * 100000000" by (rule mult_left_mono [OF assms(2) assms(1)])
  then have "(x * m) div 100000000 \<le> (x * 100000000) div 100000000"
    by (rule zdiv_mono1) simp
  with True show ?thesis by (simp add: sdiv_nonneg)
next
  case False
  then have "(x * m) sdiv 100000000 \<le> 0"
    by (simp add: signed_divide_int_def sgn_if div_int_pos_iff)
  with assms(1) show ?thesis by simp
qed

lemma foldl_aggregate_pairs:
  "foldl aggregate_step m snaps =
     foldl (\<lambda>m p. map_set m (fst p) (map_get_or_0 m (fst p) + snd p)) m
       (map (\<lambda>s. (epix_address s, snapshot_balance s)) snaps)"
  by (induction snaps arbitrary: m) (simp_all add: aggregate_step_def)

lemma redistribute_pairs:
  assumes "map (\<lambda>s. (epix_address s, snapshot_balance s)) snaps' =
           map (\<lambda>s. (epix_address s, snapshot_balance s)) snaps"
  shows "redistribute target snaps' = redistribute target snaps"
proof -
  from assms have "aggregatedEntries snaps' = aggregatedEntries snaps"
    by (simp add: aggregatedEntries_def foldl_aggregate_pairs)
  then show ?thesis by (simp add: redistribute_def)
qed

lemma finalBalances_identity_prefix:
  assumes "Suc i < length es"
  shows "finalBalances T 100000000 acc es ! i = es ! i"
  using finalBalances_nth [OF assms, of T 100000000 acc]
  by (simp add: sdiv_scale_cancel)

lemma butlast_eq_by_nth:
  assumes "length xs = length ys" "\<forall>i. Suc i < length xs \<longrightarrow> xs ! i = ys ! i"
  shows "butlast xs = butlast ys"
proof (rule nth_equalityI)
  show "length (butlast xs) = length (butlast ys)" using assms(1) by simp
next
  fix i assume "i < length (butlast xs)"
  then have "Suc i < length xs" by simp
  with assms show "butlast xs ! i = butlast ys ! i"
    by (simp add: nth_butlast)
qed

lemma last_row_is_remainder:
  fixes rows :: "(string \<times> int) list"
  assumes "rows \<noteq> []" "sum_list (map snd rows) = T"
  shows "snd (last rows) = T - sum_list (map snd (butlast rows))"
proof -
  from assms(1) have "rows = butlast rows @ [last rows]" by simp
  then have "sum_list (map snd rows) = sum_list (map snd (butlast rows @ [last rows]))"
    by simp
  also have "\<dots> = sum_list (map snd (butlast rows)) + snd (last rows)" by simp
  finally show ?thesis using assms(2) by simp
qed

lemma finalBalances_nonempty: "es \<noteq> [] \<Longrightarrow> finalBalances T m acc es \<noteq> []"
  by (metis finalBalances_length length_0_conv)

lemma finalBalances_last_key:
  assumes "es \<noteq> []"
  shows "fst (last (finalBalances T m acc es)) = fst (last es)"
proof -
  have "finalBalances T m acc es \<noteq> []" using assms by (rule finalBalances_nonempty)
  then have "fst (last (finalBalances T m acc es)) = last (map fst (finalBalances T m acc es))"
    by (rule last_map [symmetric])
  also have "\<dots> = last (map fst es)" by (simp only: finalBalances_keys)
  also have "\<dots> = fst (last es)" using assms by (rule last_map)
  finally show ?thesis .
qed

lemma scaled_sum_le:
  fixes es :: "(string \<times> int) list" and m :: int
  assumes "\<forall>e\<in>set es. 0 \<le> snd e" "0 \<le> m"
  shows "sum_list (map (\<lambda>e. (snd e * m) div 100000000) es) * 100000000
      \<le> m * sum_list (map snd es)"
  using assms
proof (induction es)
  case Nil
  then show ?case by simp
next
  case (Cons e es)
  from Cons.prems have "0 \<le> snd e * m" by simp
  have "(snd e * m) div 100000000 * 100000000 \<le> snd e * m"
    by (rule div_mult_le_int) simp
  moreover from Cons have "sum_list (map (\<lambda>e. (snd e * m) div 100000000) es) * 100000000
      \<le> m * sum_list (map snd es)"
    by simp
  ultimately show ?case by (simp add: algebra_simps)
qed

lemma scaled_sum_within_cap:
  fixes es :: "(string \<times> int) list" and m T :: int
  assumes "\<forall>e\<in>set es. 0 \<le> snd e" "0 \<le> m" "m * sum_list (map snd es) \<le> T * 100000000"
  shows "sum_list (map (\<lambda>e. (snd e * m) div 100000000) es) \<le> T"
proof -
  from scaled_sum_le [OF assms(1,2)] assms(3)
  have "sum_list (map (\<lambda>e. (snd e * m) div 100000000) es) * 100000000 \<le> T * 100000000"
    by simp
  then show ?thesis by simp
qed

lemma finalBalances_nth_floor:
  assumes "\<forall>e\<in>set es. 0 \<le> snd e" "0 \<le> m" "Suc i < length es"
  shows "finalBalances T m acc es ! i = (fst (es ! i), (snd (es ! i) * m) div 100000000)"
proof -
  from assms(3) have "es ! i \<in> set es" by simp
  with assms(1) have "0 \<le> snd (es ! i)" by blast
  with assms(2) have "0 \<le> snd (es ! i) * m" by simp
  then have "(snd (es ! i) * m) sdiv 100000000 = (snd (es ! i) * m) div 100000000"
    by (simp add: sdiv_nonneg)
  with finalBalances_nth [OF assms(3), of T m acc] show ?thesis by simp
qed

lemma finalBalances_butlast_floor:
  assumes "\<forall>e\<in>set es. 0 \<le> snd e" "0 \<le> m"
  shows "map snd (butlast (finalBalances T m acc es))
      = map (\<lambda>e. (snd e * m) div 100000000) (butlast es)"
proof (rule nth_equalityI)
  show "length (map snd (butlast (finalBalances T m acc es)))
      = length (map (\<lambda>e. (snd e * m) div 100000000) (butlast es))"
    by simp
next
  fix i assume "i < length (map snd (butlast (finalBalances T m acc es)))"
  then have i: "Suc i < length es" by simp
  then have "i < length (butlast es)" "i < length (butlast (finalBalances T m acc es))"
    by simp_all
  with finalBalances_nth_floor [OF assms i, of T acc]
  show "map snd (butlast (finalBalances T m acc es)) ! i
      = map (\<lambda>e. (snd e * m) div 100000000) (butlast es) ! i"
    by (simp add: nth_butlast)
qed

section \<open>Lemmas on CSV fields\<close>

lemma special_chars_distinct:
  "comma \<noteq> dquote" "comma \<noteq> LF" "comma \<noteq> CR" "dquote \<noteq> LF" "dquote \<noteq> CR"
  by (simp_all add: comma_def dquote_def LF_def CR_def)

lemma parse_quoted_body:
  "csv_parse_record Quoted cur (replace_dquotes s @ dquote # rest) =
     csv_parse_record QuoteSeen (cur @ s) rest"
  by (induction s arbitrary: cur) simp_all

lemma parse_unquoted_body:
  assumes "comma \<notin> set s" "dquote \<notin> set s" "LF \<notin> set s" "CR \<notin> set s"
  shows "csv_parse_record Unquoted cur (s @ rest) = csv_parse_record Unquoted (cur @ s) rest"
  using assms by (induction s arbitrary: cur) auto

lemma parse_after_unquoted:
  "csv_parse_record Unquoted cur [] = Some [cur]"
  "csv_parse_record Unquoted cur (comma # others) =
     map_option ((#) cur) (csv_parse_record FieldStart [] others)"
  by simp_all

lemma parse_after_quoted:
  "csv_parse_record QuoteSeen cur [] = Some [cur]"
  "csv_parse_record QuoteSeen cur (comma # others) =
     map_option ((#) cur) (csv_parse_record FieldStart [] others)"
  by (simp_all add: special_chars_distinct)

lemma parse_escaped_last:
  "csv_parse_record FieldStart [] (escapeCsvField (Some f)) = Some [f]"
proof (cases "comma \<in> set f \<or> dquote \<in> set f \<or> LF \<in> set f \<or> CR \<in> set f")
  case True
  then have "escapeCsvField (Some f) = dquote # replace_dquotes f @ dquote # []"
    by (simp add: escapeCsvField_def)
  then show ?thesis
    using parse_quoted_body [of "[]" f "[]"] by simp
next
  case False
  then have e: "escapeCsvField (Some f) = f" by (simp add: escapeCsvField_def)
  show ?thesis
  proof (cases f)
    case Nil
    with e show ?thesis by simp
  next
    case (Cons c cs)
    with False have c: "c \<noteq> comma" "c \<noteq> dquote" "c \<noteq> LF" "c \<noteq> CR"
      and cs: "comma \<notin> set cs" "dquote \<notin> set cs" "LF \<notin> set cs" "CR \<notin> set cs"
      by auto
    from parse_unquoted_body [OF cs, of "[c]" "[]"] c e Cons show ?thesis by simp
  qed
qed

lemma parse_escaped_then_comma:
  "csv_parse_record FieldStart [] (escapeCsvField (Some f) @ comma # others) =
     map_option ((#) f) (csv_parse_record FieldStart [] others)"
proof (cases "comma \<in> set f \<or> dquote \<in> set f \<or> LF \<in> set f \<or> CR \<in> set f")
  case True
  then have "escapeCsvField (Some f) = dquote # replace_dquotes f @ [dquote]"
    by (simp add: escapeCsvField_def)
  then show ?thesis
    using parse_quoted_body [of "[]" f "comma # others"] by (simp add: special_chars_distinct)
next
  case False
  then have e: "escapeCsvField (Some f) = f" by (simp add: escapeCsvField_def)
  show ?thesis
  proof (cases f)
    case Nil
    with e show ?thesis by (simp add: special_chars_distinct)
  next
    case (Cons c cs)
    with False have c: "c \<noteq> comma" "c \<noteq> dquote" "c \<noteq> LF" "c \<noteq> CR"
      and cs: "comma \<notin> set cs" "dquote \<notin> set cs" "LF \<notin> set cs" "CR \<notin> set cs"
      by auto
    from parse_unquoted_body [OF cs, of "[c]" "comma # others"] c e Cons show ?thesis by simp
  qed
qed

lemma csv_row_roundtrip:
  "csv_parse_record FieldStart [] (csv_row (f # fs)) = Some (f # fs)"
proof (induction fs arbitrary: f)
  case Nil
  show ?case by (simp add: csv_row_def parse_escaped_last)
next
  case (Cons g gs)
  have "csv_row (f # g # gs) = escapeCsvField (Some f) @ comma # csv_row (g # gs)"
    by (simp add: csv_row_def)
  with Cons [of g] show ?case by (simp add: parse_escaped_then_comma)
qed

section \<open>Lemmas on the verification handler\<close>

text \<open>A check either passes, returns a response, or throws.\<close>

lemma step_cases:
  fixes v :: "unit step"
  obtains "v = Next ()" | r where "v = Return r" | "v = Throw"
  by (cases v) auto

lemma verify_checks_first_failing:
  "snd (verify_checks e req store) =
     (case find (\<lambda>v. v \<noteq> Next ()) (checks_in_order e req store) of
        None \<Rightarrow> Next ()
      | Some v \<Rightarrow> v)"
proof -
  let ?x = "body_field (body req) ''x42_address''"
  let ?b = "body_field (body req) ''snapshot_balance''"
  show ?thesis
  proof (cases "check_block_height e" rule: step_cases)
    case 1
    show ?thesis
    proof (cases "check_deadline e" rule: step_cases)
      case 1
      note d = this
      show ?thesis
      proof (cases "check_duplicate e store ?x" rule: step_cases)
        case 1
        note u = this
        show ?thesis
        proof (cases "check_balance e ?b" rule: step_cases)
          case 1
          then show ?thesis
            using \<open>check_block_height e = Next ()\<close> d u
            by (cases "check_signature e" rule: step_cases)
              (simp_all add: verify_checks_def checks_in_order_def and_then_def Let_def)
        qed (simp_all add: verify_checks_def checks_in_order_def and_then_def Let_def
              \<open>check_block_height e = Next ()\<close> d u)
      qed (simp_all add: verify_checks_def checks_in_order_def and_then_def Let_def
            \<open>check_block_height e = Next ()\<close> d)
    qed (simp_all add: verify_checks_def checks_in_order_def and_then_def Let_def 1)
  qed (simp_all add: verify_checks_def checks_in_order_def and_then_def Let_def)
qed

lemma verify_checks_calls:
  "\<exists>n. fst (verify_checks e req store) = take (Suc n) (calls_in_order req)"
proof -
  let ?x = "body_field (body req) ''x42_address''"
  let ?b = "body_field (body req) ''snapshot_balance''"
  let ?calls = "[ChainGetTip, DbFindOne ?x, ChainGetBalance ?x,
        ChainVerifyMessage (case signature_header req of None \<Rightarrow> [] | Some s \<Rightarrow> s)
          ?x (body req)]"
  have "fst (verify_checks e req store) = take (Suc 0) ?calls
      \<or> fst (verify_checks e req store) = take (Suc 1) ?calls
      \<or> fst (verify_checks e req store) = take (Suc 2) ?calls
      \<or> fst (verify_checks e req store) = take (Suc 3) ?calls"
    by (cases "check_block_height e" rule: step_cases;
        cases "check_deadline e" rule: step_cases;
        cases "check_duplicate e store ?x" rule: step_cases;
        cases "check_balance e ?b" rule: step_cases)
      (simp_all add: verify_checks_def checks_in_order_def and_then_def Let_def)
  then show ?thesis unfolding calls_in_order_def by blast
qed


lemma verify_snapshot_response:
  "response (verify_snapshot e req store) =
     (if missing_signature req then (400, Error ''Signature is required'')
      else case snd (verify_checks e req store) of
             Return r \<Rightarrow> r
           | Throw \<Rightarrow> (500, Error ''Internal server error'')
           | Next u \<Rightarrow> response (verify_commit e req store))"
  by (simp add: verify_snapshot_def Let_def split: prod.splits step.splits)

lemma verify_snapshot_store:
  "store_after (verify_snapshot e req store) =
     (if missing_signature req then store
      else case snd (verify_checks e req store) of
             Next u \<Rightarrow> store_after (verify_commit e req store)
           | _ \<Rightarrow> store)"
  by (simp add: verify_snapshot_def Let_def split: prod.splits step.splits)

lemma verify_commit_response:
  "response (verify_commit e req store) =
     (case Snapshot_create e store (body req) (req_signature req) (req_x42_address req)
             (req_epix_address req) (req_snapshot_balance req) of
        None \<Rightarrow> (500, Error ''Internal server error'')
      | Some store' \<Rightarrow> (200, Message ''Snapshot verified and stored successfully''))"
  by (simp add: verify_commit_def Let_def split: option.splits prod.splits)

lemma verify_commit_store:
  "store_after (verify_commit e req store) =
     (case Snapshot_create e store (body req) (req_signature req) (req_x42_address req)
             (req_epix_address req) (req_snapshot_balance req) of
        None \<Rightarrow> store
      | Some store' \<Rightarrow> store')"
  by (simp add: verify_commit_def Let_def split: option.splits prod.splits)

lemma verify_commit_not_400: "fst (response (verify_commit e req store)) \<noteq> 400"
  by (simp add: verify_commit_response split: option.splits)

lemma check_signature_not_balance:
  "check_signature e \<noteq> Return (400, Error ''Balance verification failed'')"
  by (simp add: check_signature_def split: reply.splits)

lemma check_returns_400:
  "check_block_height e = Return r \<Longrightarrow> fst r = 400"
  "check_deadline e = Return r \<Longrightarrow> fst r = 400"
  "check_duplicate e store x = Return r \<Longrightarrow> fst r = 400"
  "check_balance e b = Return r \<Longrightarrow> fst r = 400"
  "check_signature e = Return r \<Longrightarrow> fst r = 400"
  by (auto simp: check_block_height_def check_deadline_def check_duplicate_def
      check_balance_def check_signature_def
      split: reply.splits attempt.splits if_splits option.splits)

lemma first_failing_return_400:
  assumes "find (\<lambda>v. v \<noteq> Next ()) (checks_in_order e req store) = Some (Return r)"
  shows "fst r = 400"
proof -
  from assms have "Return r \<in> set (checks_in_order e req store)"
    by (auto simp: find_Some_iff)
  then show ?thesis
    by (auto simp: checks_in_order_def dest: check_returns_400 [OF sym])
qed

lemma check_block_height_throw: "check_block_height e = Throw \<longleftrightarrow> tip_reply e = Rejects"
proof (cases "tip_reply e")
  case Rejects
  then show ?thesis by (simp add: check_block_height_def)
next
  case (Resolves data)
  then show ?thesis
    by (cases data rule: truthy.cases) (simp_all add: check_block_height_def)
qed

lemma check_block_height_unavailable:
  assumes "tip_reply e = Resolves data"
    and "\<not> truthy data \<or> (\<exists>h. get_prop data ''tipHeight'' = Got h \<and> \<not> truthy h)"
  shows "check_block_height e = Return (400, Error ''Unable to retrieve block height'')"
  using assms by (auto simp: check_block_height_def)

lemma Snapshot_findOne_threw:
  "Snapshot_findOne e store x = Threw \<longleftrightarrow> findOne_fails e \<or> x = None"
  by (simp add: Snapshot_findOne_def split: option.splits json.splits)

lemma Snapshot_findOne_string:
  "\<not> findOne_fails e \<Longrightarrow>
   Snapshot_findOne e store (Some (JStr a)) = Got (find (\<lambda>row. x42_address row = a) store)"
  by (simp add: Snapshot_findOne_def)

lemma check_duplicate_throw:
  "check_duplicate e store x = Throw \<longleftrightarrow> findOne_fails e \<or> x = None"
  using Snapshot_findOne_threw [of e store x]
  by (cases "Snapshot_findOne e store x") (auto simp: check_duplicate_def split: option.splits)

lemma check_balance_throw:
  "check_balance e b = Throw \<longleftrightarrow>
     balance_reply e = Rejects \<or> (\<exists>data. balance_reply e = Resolves data \<and> read_balance data = Threw)"
  by (simp add: check_balance_def split: reply.splits attempt.splits)

lemma check_signature_throw: "check_signature e = Throw \<longleftrightarrow> verify_reply e = Rejects"
  by (simp add: check_signature_def split: reply.splits)

lemma check_deadline_no_throw: "check_deadline e \<noteq> Throw"
  by (simp add: check_deadline_def)

lemma sample_request_fields:
  "\<not> missing_signature sample_request"
  "req_x42_address sample_request = Some (JStr ''XG9pb7U3'')"
  "req_epix_address sample_request = Some (JStr ''epix1r2357'')"
  "req_snapshot_balance sample_request = Some (JNum 69223563046)"
  "req_signature sample_request = ''H1sig''"
  by (simp_all add: sample_request_def missing_signature_def body_field_def)

lemma sample_env_checks:
  "check_block_height sample_env = Next ()"
  "check_deadline sample_env = Next ()"
  "check_duplicate sample_env [] (Some (JStr a)) = Next ()"
  "check_balance sample_env (Some (JNum 69223563046)) = Next ()"
  "check_signature sample_env = Next ()"
  by (simp_all add: sample_env_def check_block_height_def check_deadline_def claimDeadline_def
      check_duplicate_def Snapshot_findOne_def check_balance_def read_balance_def
      check_signature_def)

lemma sample_to_row:
  "to_row e (body sample_request) ''H1sig'' (Some (JStr ''XG9pb7U3''))
     (Some (JStr ''epix1r2357'')) (Some (JNum 69223563046)) = Some sample_row"
  by (simp add: to_row_def column_string_def column_bigint_def sample_row_def)

lemma verify_checks_pass:
  assumes "snd (verify_checks e req store) = Next u"
  shows "\<forall>v\<in>set (checks_in_order e req store). v = Next ()"
proof (cases "find (\<lambda>v. v \<noteq> Next ()) (checks_in_order e req store)")
  case None
  then show ?thesis by (simp add: find_None_iff)
next
  case (Some v)
  then have "v \<noteq> Next ()" by (auto simp: find_Some_iff)
  moreover from Some assms have "v = Next u" by (simp add: verify_checks_first_failing)
  ultimately show ?thesis by simp
qed

lemma checks_ignore_webhook:
  "check_block_height (e\<lparr>webhook_configured := c, webhook_post_ok := p\<rparr>) = check_block_height e"
  "check_deadline (e\<lparr>webhook_configured := c, webhook_post_ok := p\<rparr>) = check_deadline e"
  "check_duplicate (e\<lparr>webhook_configured := c, webhook_post_ok := p\<rparr>) store x
     = check_duplicate e store x"
  "check_balance (e\<lparr>webhook_configured := c, webhook_post_ok := p\<rparr>) b = check_balance e b"
  "check_signature (e\<lparr>webhook_configured := c, webhook_post_ok := p\<rparr>) = check_signature e"
  by (simp_all add: check_block_height_def check_deadline_def check_duplicate_def
      Snapshot_findOne_def check_balance_def check_signature_def
      split: reply.splits attempt.splits option.splits json.splits)

lemma verify_checks_ignores_webhook:
  "verify_checks (e\<lparr>webhook_configured := c, webhook_post_ok := p\<rparr>) req store
     = verify_checks e req store"
  by (simp add: verify_checks_def checks_ignore_webhook)

lemma Snapshot_create_ignores_webhook:
  "Snapshot_create (e\<lparr>webhook_configured := c, webhook_post_ok := p\<rparr>) store raw sig x42 epix bal
     = Snapshot_create e store raw sig x42 epix bal"
  by (simp add: Snapshot_create_def to_row_def column_string_def column_bigint_def
      split: option.splits json.splits)

lemma sample_verify_checks:
  "verify_checks sample_env sample_request [] = (calls_in_order sample_request, Next ())"
  by (simp add: verify_checks_def and_then_def calls_in_order_def sample_env_checks
      sample_request_fields Let_def)

lemma sample_create:
  "Snapshot_create sample_env store (body sample_request) ''H1sig'' (Some (JStr ''XG9pb7U3''))
     (Some (JStr ''epix1r2357'')) (Some (JNum 69223563046)) = Some (store @ [sample_row])"
  by (simp add: Snapshot_create_def sample_to_row) (simp add: sample_env_def)

lemma sample_commit:
  "verify_commit sample_env sample_request store =
     \<lparr>response = (200, Message ''Snapshot verified and stored successfully''),
      store_after = store @ [sample_row],
      effects_before =
        [DbCreate (body sample_request) ''H1sig'' (Some (JStr ''XG9pb7U3''))
           (Some (JStr ''epix1r2357'')) (Some (JNum 69223563046)),
         WebhookPost (Some (JStr ''XG9pb7U3'')) (Some (JNum 69223563046))],
      effects_after = []\<rparr>"
  by (simp add: verify_commit_def sample_request_fields sample_create
      sendSnapshotVerificationNotification_def Let_def)
    (simp add: sample_env_def)

text \<open>The response of the handler, decision by decision.\<close>

lemma verify_snapshot_decision:
  "response (verify_snapshot e req store) =
     (if signature_header req = None \<or> signature_header req = Some []
      then (400, Error ''Signature is required'')
      else case tip_reply e of
        Rejects \<Rightarrow> (500, Error ''Internal server error'')
      | Resolves data \<Rightarrow>
          if \<not> truthy data then (400, Error ''Unable to retrieve block height'')
          else case get_prop data ''tipHeight'' of
            Threw \<Rightarrow> (500, Error ''Internal server error'')
          | Got tipHeight \<Rightarrow>
              if \<not> truthy tipHeight then (400, Error ''Unable to retrieve block height'')
              else if \<not> loose_eq_number (toNumber e) tipHeight 3000000
              then (400, Error ''Block height must be at 3,000,000 blocks'')
              else if now e > 1749168000000
              then (400, Error
                ''Claim period has ended. The deadline was June 6th, 2025 at 00:00:00 UTC'')
              else case Snapshot_findOne e store (req_x42_address req) of
                Threw \<Rightarrow> (500, Error ''Internal server error'')
              | Got (Some existing) \<Rightarrow>
                  (400, Error ''Duplicate address. Snapshot was already verified.'')
              | Got None \<Rightarrow>
                  (case balance_reply e of
                     Rejects \<Rightarrow> (500, Error ''Internal server error'')
                   | Resolves balances_data \<Rightarrow>
                       (case get_prop balances_data ''balances'' of
                          Threw \<Rightarrow> (500, Error ''Internal server error'')
                        | Got balances \<Rightarrow>
                            (case get_index0 balances of
                               Threw \<Rightarrow> (500, Error ''Internal server error'')
                             | Got first \<Rightarrow>
                                 (case get_prop first ''balance'' of
                                    Threw \<Rightarrow> (500, Error ''Internal server error'')
                                  | Got balance \<Rightarrow>
                                      if \<not> strict_eq balance (req_snapshot_balance req)
                                      then (400, Error ''Balance verification failed'')
                                      else (case verify_reply e of
                                        Rejects \<Rightarrow> (500, Error ''Internal server error'')
                                      | Resolves verdict \<Rightarrow>
                                          if \<not> strict_eq verdict (Some (JStr ''True''))
                                          then (400, Error ''Signature verification failed'')
                                          else (case Snapshot_create e store (body req)
                                                  (req_signature req) (req_x42_address req)
                                                  (req_epix_address req)
                                                  (req_snapshot_balance req) of
                                             None \<Rightarrow> (500, Error ''Internal server error'')
                                           | Some store' \<Rightarrow>
                                               (200, Message
                                                 ''Snapshot verified and stored successfully''))))))))"
proof -
  define verdict where "verdict cs =
      (case find (\<lambda>v. v \<noteq> Next ()) cs of None \<Rightarrow> Next () | Some v \<Rightarrow> v)"
    for cs :: "unit step list"
  define g where "g v =
      (case v of
         Return r \<Rightarrow> r
       | Throw \<Rightarrow> (500, Error ''Internal server error'')
       | Next u \<Rightarrow> response (verify_commit e req store))"
    for v :: "unit step"
  have first_cons: "verdict (c # cs) = (if c = Next () then verdict cs else c)" for c cs
    by (simp add: verdict_def)
  have first_nil: "verdict [] = Next ()"
    by (simp add: verdict_def)
  have m: "missing_signature req
      = (signature_header req = None \<or> signature_header req = Some [])"
    by (simp add: missing_signature_def split: option.split)
  have resp: "response (verify_snapshot e req store) =
      (if signature_header req = None \<or> signature_header req = Some []
       then (400, Error ''Signature is required'')
       else g (verdict (checks_in_order e req store)))"
    unfolding m [symmetric]
    by (simp add: verify_snapshot_response verify_checks_first_failing verdict_def g_def)
  have s1: "g (verdict (check_block_height e # cs)) =
      (case tip_reply e of
        Rejects \<Rightarrow> (500, Error ''Internal server error'')
      | Resolves data \<Rightarrow>
          if \<not> truthy data then (400, Error ''Unable to retrieve block height'')
          else case get_prop data ''tipHeight'' of
            Threw \<Rightarrow> (500, Error ''Internal server error'')
          | Got tipHeight \<Rightarrow>
              if \<not> truthy tipHeight then (400, Error ''Unable to retrieve block height'')
              else if \<not> loose_eq_number (toNumber e) tipHeight 3000000
              then (400, Error ''Block height must be at 3,000,000 blocks'')
              else g (verdict cs))" for cs
    by (simp add: first_cons check_block_height_def g_def split: reply.split attempt.split)
  have s2: "g (verdict (check_deadline e # cs)) =
      (if now e > 1749168000000
       then (400, Error
         ''Claim period has ended. The deadline was June 6th, 2025 at 00:00:00 UTC'')
       else g (verdict cs))" for cs
    by (simp add: first_cons check_deadline_def claimDeadline_def g_def)
  have s3: "g (verdict (check_duplicate e store (req_x42_address req) # cs)) =
      (case Snapshot_findOne e store (req_x42_address req) of
         Threw \<Rightarrow> (500, Error ''Internal server error'')
       | Got (Some existing) \<Rightarrow>
           (400, Error ''Duplicate address. Snapshot was already verified.'')
       | Got None \<Rightarrow> g (verdict cs))" for cs
    by (simp add: first_cons check_duplicate_def g_def split: attempt.split option.split)
  have s4: "g (verdict (check_balance e (req_snapshot_balance req) # cs)) =
      (case balance_reply e of
         Rejects \<Rightarrow> (500, Error ''Internal server error'')
       | Resolves balances_data \<Rightarrow>
           (case get_prop balances_data ''balances'' of
              Threw \<Rightarrow> (500, Error ''Internal server error'')
            | Got balances \<Rightarrow>
                (case get_index0 balances of
                   Threw \<Rightarrow> (500, Error ''Internal server error'')
                 | Got first \<Rightarrow>
                     (case get_prop first ''balance'' of
                        Threw \<Rightarrow> (500, Error ''Internal server error'')
                      | Got balance \<Rightarrow>
                          if \<not> strict_eq balance (req_snapshot_balance req)
                          then (400, Error ''Balance verification failed'')
                          else g (verdict cs)))))" for cs
    by (simp add: first_cons check_balance_def read_balance_def g_def
        split: reply.split attempt.split)
  have s5: "g (verdict [check_signature e]) =
      (case verify_reply e of
         Rejects \<Rightarrow> (500, Error ''Internal server error'')
       | Resolves verdict \<Rightarrow>
           if \<not> strict_eq verdict (Some (JStr ''True''))
           then (400, Error ''Signature verification failed'')
           else (case Snapshot_create e store (body req)
                   (req_signature req) (req_x42_address req)
                   (req_epix_address req)
                   (req_snapshot_balance req) of
              None \<Rightarrow> (500, Error ''Internal server error'')
            | Some store' \<Rightarrow>
                (200, Message ''Snapshot verified and stored successfully'')))"
    by (simp add: first_cons first_nil check_signature_def g_def verify_commit_response
        split: reply.split)
  show ?thesis
    unfolding resp checks_in_order_def s1 s2 s3 s4 s5 ..
qed

section \<open>Claims on the redistribution\<close>

text \<open>
  C1. For every non-empty stored claim set (balances are non-negative integers, as the data
  model has them) whose total original balance is positive, the redistribution of
  GET /download-csv succeeds with one row per distinct destination address, the final
  balances sum to \<open>TARGET_BALANCE_SATS\<close> (half of \<open>TOTAL_SUPPLY\<close>, scaled by \<open>10^8\<close>) exactly, and
  the last row in processing order holds the cap minus the sum of all other rows.
\<close>

theorem download_csv_conservation:
  assumes nonempty: "snapshots \<noteq> []"
    and nonneg: "\<forall>s\<in>set snapshots. 0 \<le> snapshot_balance s"
    and positive: "0 < sum_list (map snapshot_balance snapshots)"
  shows "\<exists>rows. download_csv_balances snapshots = Some rows
      \<and> rows \<noteq> []
      \<and> distinct (map fst rows)
      \<and> set (map fst rows) = epix_address ` set snapshots
      \<and> sum_list (map snd rows) = TARGET_BALANCE_SATS
      \<and> snd (last rows) = TARGET_BALANCE_SATS - sum_list (map snd (butlast rows))
      \<and> TARGET_BALANCE_SATS = (TOTAL_SUPPLY div 2) * 10 ^ 8"
proof -
  let ?es = "aggregatedEntries snapshots"
  from redistribute_total [OF TARGET_BALANCE_SATS_nonneg, of snapshots]
  obtain m where rows: "download_csv_balances snapshots =
      Some (finalBalances TARGET_BALANCE_SATS m 0 ?es)"
    by (auto simp: download_csv_balances_def)
  let ?rows = "finalBalances TARGET_BALANCE_SATS m 0 ?es"
  have ne: "?rows \<noteq> []"
    using aggregatedEntries_nonempty [OF nonempty] by (rule finalBalances_nonempty)
  have keys: "map fst ?rows = map fst ?es" by simp
  have d: "distinct (map fst ?rows)"
    unfolding keys by (rule aggregatedEntries_distinct)
  have s: "set (map fst ?rows) = epix_address ` set snapshots"
    unfolding keys using aggregatedEntries_key_set [of snapshots] by simp
  have total: "sum_list (map snd ?rows) = TARGET_BALANCE_SATS"
    using rows
    by (intro redistribute_conserve [OF nonempty nonneg TARGET_BALANCE_SATS_nonneg])
      (simp add: download_csv_balances_def)
  from last_row_is_remainder [OF ne total]
  have l: "snd (last ?rows) = TARGET_BALANCE_SATS - sum_list (map snd (butlast ?rows))" .
  have c: "TARGET_BALANCE_SATS = (TOTAL_SUPPLY div 2) * 10 ^ 8"
    by (simp add: TARGET_BALANCE_SATS_def)
  from rows ne d s total l c show ?thesis by blast
qed

theorem download_csv_conservation_witness:
  "[claim ''b'' 100, claim ''a'' 200, claim ''b'' 5] \<noteq> []
   \<and> 0 < sum_list (map snapshot_balance [claim ''b'' 100, claim ''a'' 200, claim ''b'' 5])
   \<and> download_csv_balances [claim ''b'' 100, claim ''a'' 200, claim ''b'' 5]
       = Some [(''b'', 105), (''a'', 1184476899999895)]
   \<and> (\<exists>rows. download_csv_balances [claim ''b'' 100, claim ''a'' 200, claim ''b'' 5] = Some rows
      \<and> sum_list (map snd rows) = TARGET_BALANCE_SATS
      \<and> snd (last rows) = TARGET_BALANCE_SATS - sum_list (map snd (butlast rows)))"
proof -
  let ?w = "[claim ''b'' 100, claim ''a'' 200, claim ''b'' 5]"
  have h1: "?w \<noteq> []" by simp
  have h2: "\<forall>s\<in>set ?w. 0 \<le> snapshot_balance s" by (simp add: claim_def)
  have h3: "0 < sum_list (map snapshot_balance ?w)" by (simp add: claim_def)
  have v: "download_csv_balances ?w = Some [(''b'', 105), (''a'', 1184476899999895)]"
    by code_simp
  from download_csv_conservation [OF h1 h2 h3] h1 h3 v show ?thesis by blast
qed

text \<open>
  C2, as the code has it. The claim that every final balance equals its original balance
  when the total is at most the cap fails at the last row: a single claim of 100 units is
  paid the whole cap, and so is a single claim of 0 units.
\<close>

theorem under_cap_final_equals_original_counterexample:
  "totalClaimedRaw (aggregatedEntries [claim ''a'' 100]) \<le> TARGET_BALANCE_SATS
   \<and> aggregatedEntries [claim ''a'' 100] = [(''a'', 100)]
   \<and> download_csv_balances [claim ''a'' 100] = Some [(''a'', 1184476900000000)]
   \<and> aggregatedEntries [claim ''z'' 0] = [(''z'', 0)]
   \<and> download_csv_balances [claim ''z'' 0] = Some [(''z'', 1184476900000000)]"
  by code_simp

text \<open>
  C2, amended. For every non-empty claim set with non-negative balances whose total is at
  most the cap, the multiplier is the scale \<open>10^8\<close> (ratio 1), the redistribution
  returns rows without a division fault (also when every balance is 0), every row but the
  last holds its destination's original balance, and the last row holds the cap minus the
  sum of the other original balances, which is at least its own original balance.
\<close>

theorem under_cap_redistribution:
  assumes nonempty: "snapshots \<noteq> []"
    and nonneg: "\<forall>s\<in>set snapshots. 0 \<le> snapshot_balance s"
    and under: "sum_list (map snapshot_balance snapshots) \<le> TARGET_BALANCE_SATS"
  shows "multiplierBigInt TARGET_BALANCE_SATS (totalClaimedRaw (aggregatedEntries snapshots))
        = Some 100000000
    \<and> (\<exists>rows. download_csv_balances snapshots = Some rows
        \<and> length rows = length (aggregatedEntries snapshots)
        \<and> (\<forall>i. Suc i < length rows \<longrightarrow> rows ! i = aggregatedEntries snapshots ! i)
        \<and> last rows = (fst (last (aggregatedEntries snapshots)),
             TARGET_BALANCE_SATS - sum_list (map snd (butlast (aggregatedEntries snapshots))))
        \<and> snd (last (aggregatedEntries snapshots)) \<le> snd (last rows))"
proof -
  let ?es = "aggregatedEntries snapshots"
  let ?rows = "finalBalances TARGET_BALANCE_SATS 100000000 0 ?es"
  have tot: "totalClaimedRaw ?es \<le> TARGET_BALANCE_SATS"
    using under by (simp add: totalClaimedRaw_sum aggregatedEntries_sum)
  then have m: "multiplierBigInt TARGET_BALANCE_SATS (totalClaimedRaw ?es) = Some 100000000"
    by (rule multiplier_under_cap)
  then have rows: "download_csv_balances snapshots = Some ?rows"
    by (simp add: download_csv_balances_def redistribute_def Let_def)
  have es_ne: "?es \<noteq> []" using nonempty by (rule aggregatedEntries_nonempty)
  then have rows_ne: "?rows \<noteq> []" by (rule finalBalances_nonempty)
  have len: "length ?rows = length ?es" by simp
  have pre: "\<forall>i. Suc i < length ?rows \<longrightarrow> ?rows ! i = ?es ! i"
    by (simp add: finalBalances_identity_prefix)
  from butlast_eq_by_nth [OF len pre] have bl: "butlast ?rows = butlast ?es" .
  have total: "sum_list (map snd ?rows) = TARGET_BALANCE_SATS"
    using rows
    by (intro redistribute_conserve [OF nonempty nonneg TARGET_BALANCE_SATS_nonneg])
      (simp add: download_csv_balances_def)
  from last_row_is_remainder [OF rows_ne total]
  have l: "snd (last ?rows) = TARGET_BALANCE_SATS - sum_list (map snd (butlast ?es))"
    by (simp only: bl)
  have k: "fst (last ?rows) = fst (last ?es)" using es_ne by (rule finalBalances_last_key)
  from k l have lastrow: "last ?rows = (fst (last ?es),
      TARGET_BALANCE_SATS - sum_list (map snd (butlast ?es)))"
    by (simp add: prod_eq_iff)
  from last_row_is_remainder [OF es_ne refl] tot
  have "sum_list (map snd (butlast ?es)) + snd (last ?es) \<le> TARGET_BALANCE_SATS"
    by (simp add: totalClaimedRaw_sum)
  with l have ge: "snd (last ?es) \<le> snd (last ?rows)" by simp
  from m rows len pre lastrow ge show ?thesis by blast
qed

theorem under_cap_redistribution_witness:
  "[claim ''b'' 100, claim ''a'' 0, claim ''b'' 5] \<noteq> []
   \<and> sum_list (map snapshot_balance [claim ''b'' 100, claim ''a'' 0, claim ''b'' 5])
       \<le> TARGET_BALANCE_SATS
   \<and> (\<exists>rows. download_csv_balances [claim ''b'' 100, claim ''a'' 0, claim ''b'' 5] = Some rows
      \<and> rows ! 0 = aggregatedEntries [claim ''b'' 100, claim ''a'' 0, claim ''b'' 5] ! 0
      \<and> last rows = (''a'', TARGET_BALANCE_SATS - 105))"
proof -
  let ?w = "[claim ''b'' 100, claim ''a'' 0, claim ''b'' 5]"
  have h1: "?w \<noteq> []" by simp
  have h2: "\<forall>s\<in>set ?w. 0 \<le> snapshot_balance s" by (simp add: claim_def)
  have h3: "sum_list (map snapshot_balance ?w) \<le> TARGET_BALANCE_SATS"
    by (simp add: claim_def TARGET_BALANCE_SATS_value)
  have es: "aggregatedEntries ?w = [(''b'', 105), (''a'', 0)]" by code_simp
  from under_cap_redistribution [OF h1 h2 h3] obtain rows where
    r: "download_csv_balances ?w = Some rows"
      "length rows = length (aggregatedEntries ?w)"
      "\<forall>i. Suc i < length rows \<longrightarrow> rows ! i = aggregatedEntries ?w ! i"
      "last rows = (fst (last (aggregatedEntries ?w)),
          TARGET_BALANCE_SATS - sum_list (map snd (butlast (aggregatedEntries ?w))))"
    by blast
  from r(2) es have "Suc 0 < length rows" by simp
  with r(3) have "rows ! 0 = aggregatedEntries ?w ! 0" by blast
  moreover from r(4) es have "last rows = (''a'', TARGET_BALANCE_SATS - 105)" by simp
  ultimately show ?thesis using r(1) h1 h3 by blast
qed

text \<open>
  C3. For every claim set (non-negative balances) whose total exceeds the cap, the multiplier
  is \<open>floor(target * 10^8 / total)\<close>, an integer quotient, and every row but the last holds
  \<open>floor(originalBalance * multiplier / 10^8)\<close>. The cap is a parameter of \<open>redistribute\<close>
  (the route passes \<open>TARGET_BALANCE_SATS\<close>); with the cap 500,000,000 and the claims
  A: 300,000,000 and B: 700,000,000 the multiplier is 50,000,000, A receives 150,000,000
  and the last row B receives 350,000,000, which sum to 500,000,000.
\<close>

theorem over_cap_multiplier_and_rows:
  assumes cap: "0 \<le> target"
    and nonneg: "\<forall>s\<in>set snapshots. 0 \<le> snapshot_balance s"
    and over: "target < sum_list (map snapshot_balance snapshots)"
  shows "totalClaimedRaw (aggregatedEntries snapshots) = sum_list (map snapshot_balance snapshots)
    \<and> multiplierBigInt target (totalClaimedRaw (aggregatedEntries snapshots))
        = Some ((target * 10 ^ 8) div totalClaimedRaw (aggregatedEntries snapshots))
    \<and> (\<exists>rows. redistribute target snapshots = Some rows
        \<and> length rows = length (aggregatedEntries snapshots)
        \<and> (\<forall>i. Suc i < length rows \<longrightarrow>
              rows ! i = (fst (aggregatedEntries snapshots ! i),
                (snd (aggregatedEntries snapshots ! i)
                  * ((target * 10 ^ 8) div totalClaimedRaw (aggregatedEntries snapshots)))
                div 10 ^ 8)))
    \<and> multiplierBigInt 500000000
          (totalClaimedRaw (aggregatedEntries [claim ''A'' 300000000, claim ''B'' 700000000]))
        = Some 50000000
    \<and> redistribute 500000000 [claim ''A'' 300000000, claim ''B'' 700000000]
        = Some [(''A'', 150000000), (''B'', 350000000)]
    \<and> sum_list (map snd [(''A'', 150000000 :: int), (''B'', 350000000)]) = 500000000"
proof -
  let ?es = "aggregatedEntries snapshots"
  let ?tot = "totalClaimedRaw ?es"
  let ?m = "(target * 100000000) div ?tot"
  have t: "?tot = sum_list (map snapshot_balance snapshots)"
    by (simp add: totalClaimedRaw_sum aggregatedEntries_sum)
  with over have over': "target < ?tot" by simp
  from multiplier_over_cap [OF cap over']
  have m: "multiplierBigInt target ?tot = Some ?m" .
  then have rows: "redistribute target snapshots = Some (finalBalances target ?m 0 ?es)"
    by (simp add: redistribute_def Let_def)
  from cap over' have "0 \<le> ?tot" by simp
  from multiplier_room [OF cap this m] have m0: "0 \<le> ?m" by simp
  have nn: "\<forall>e\<in>set ?es. 0 \<le> snd e" using nonneg by (rule aggregatedEntries_nonneg)
  have pre: "\<forall>i. Suc i < length (finalBalances target ?m 0 ?es) \<longrightarrow>
      finalBalances target ?m 0 ?es ! i = (fst (?es ! i), (snd (?es ! i) * ?m) div 100000000)"
  proof (intro allI impI)
    fix i assume "Suc i < length (finalBalances target ?m 0 ?es)"
    then have i: "Suc i < length ?es" by simp
    then have "?es ! i \<in> set ?es" by simp
    with nn have "0 \<le> snd (?es ! i)" by blast
    with m0 have "0 \<le> snd (?es ! i) * ?m" by simp
    then have "(snd (?es ! i) * ?m) sdiv 100000000 = (snd (?es ! i) * ?m) div 100000000"
      by (simp add: sdiv_nonneg)
    with finalBalances_nth [OF i, of target ?m 0]
    show "finalBalances target ?m 0 ?es ! i = (fst (?es ! i), (snd (?es ! i) * ?m) div 100000000)"
      by simp
  qed
  have len: "length (finalBalances target ?m 0 ?es) = length ?es" by simp
  have e1: "multiplierBigInt 500000000
      (totalClaimedRaw (aggregatedEntries [claim ''A'' 300000000, claim ''B'' 700000000]))
      = Some 50000000"
    by code_simp
  have e2: "redistribute 500000000 [claim ''A'' 300000000, claim ''B'' 700000000]
      = Some [(''A'', 150000000), (''B'', 350000000)]"
    by code_simp
  have e3: "sum_list (map snd [(''A'', 150000000 :: int), (''B'', 350000000)]) = 500000000"
    by simp
  from t m rows len pre e1 e2 e3 show ?thesis by simp
qed

theorem over_cap_multiplier_and_rows_witness:
  "(0::int) \<le> TARGET_BALANCE_SATS
   \<and> TARGET_BALANCE_SATS
       < sum_list (map snapshot_balance
           [claim ''a'' 1184476900000000, claim ''b'' 1184476900000001, claim ''c'' 7])
   \<and> multiplierBigInt TARGET_BALANCE_SATS (totalClaimedRaw (aggregatedEntries
         [claim ''a'' 1184476900000000, claim ''b'' 1184476900000001, claim ''c'' 7]))
       = Some 49999999
   \<and> (\<exists>rows. download_csv_balances
         [claim ''a'' 1184476900000000, claim ''b'' 1184476900000001, claim ''c'' 7] = Some rows
       \<and> rows ! 0 = (''a'', 592238438155231)
       \<and> rows ! 1 = (''b'', 592238438155231))"
proof -
  let ?w = "[claim ''a'' 1184476900000000, claim ''b'' 1184476900000001, claim ''c'' 7]"
  have h1: "0 \<le> TARGET_BALANCE_SATS" by (simp add: TARGET_BALANCE_SATS_value)
  have h2: "\<forall>s\<in>set ?w. 0 \<le> snapshot_balance s" by (simp add: claim_def)
  have h3: "TARGET_BALANCE_SATS < sum_list (map snapshot_balance ?w)"
    by (simp add: claim_def TARGET_BALANCE_SATS_value)
  have es: "aggregatedEntries ?w =
      [(''a'', 1184476900000000), (''b'', 1184476900000001), (''c'', 7)]"
    by code_simp
  have tot: "totalClaimedRaw
      [(''a'', 1184476900000000), (''b'', 1184476900000001), (''c'', 7)] = 2368953800000008"
    by (simp add: totalClaimedRaw_def)
  note inst = over_cap_multiplier_and_rows [OF h1 h2 h3]
  from inst have m: "multiplierBigInt TARGET_BALANCE_SATS (totalClaimedRaw (aggregatedEntries ?w))
      = Some 49999999"
    by (simp add: es tot TARGET_BALANCE_SATS_value)
  from inst obtain rows where
    r: "redistribute TARGET_BALANCE_SATS ?w = Some rows"
      "length rows = length (aggregatedEntries ?w)"
      "\<forall>i. Suc i < length rows \<longrightarrow>
          rows ! i = (fst (aggregatedEntries ?w ! i),
            (snd (aggregatedEntries ?w ! i)
              * ((TARGET_BALANCE_SATS * 10 ^ 8) div totalClaimedRaw (aggregatedEntries ?w)))
            div 10 ^ 8)"
    by blast
  from r(2) es have l: "Suc 0 < length rows" "Suc 1 < length rows" by simp_all
  from r(3) l(1) have "rows ! 0 = (''a'', 592238438155231)"
    by (simp add: es tot TARGET_BALANCE_SATS_value)
  moreover from r(3) l(2) have "rows ! 1 = (''b'', 592238438155231)"
    by (simp add: es tot TARGET_BALANCE_SATS_value)
  ultimately show ?thesis using h1 h3 m r(1) by (auto simp: download_csv_balances_def)
qed

text \<open>
  C4, as the code has it. The rows follow the insertion order of the aggregation \<open>Map\<close>, not
  the order of the addresses. With the stored claims b: 100 then a: 200 the multiplier is
  \<open>10^8\<close>; destination b, the last one by address, keeps its scaled balance 100, and the
  remainder goes to a, which sorts first. Taken in address order, a would keep 200 and b
  would receive the remainder.
\<close>

theorem remainder_address_sorted_counterexample:
  "aggregatedEntries [claim ''b'' 100, claim ''a'' 200] = [(''b'', 100), (''a'', 200)]
   \<and> multiplierBigInt TARGET_BALANCE_SATS
         (totalClaimedRaw (aggregatedEntries [claim ''b'' 100, claim ''a'' 200]))
       = Some 100000000
   \<and> download_csv_balances [claim ''b'' 100, claim ''a'' 200]
       = Some [(''b'', 100), (''a'', 1184476899999900)]
   \<and> address_sorted_balances [claim ''b'' 100, claim ''a'' 200]
       = Some [(''a'', 200), (''b'', 1184476899999800)]
   \<and> (''a'' :: string) < ''b''
   \<and> (100 * 100000000) div 100000000 = (100 :: int)
   \<and> (200 * 100000000) div 100000000 \<noteq> (1184476899999900 :: int)"
  by code_simp

text \<open>
  C4, amended. The rows of the redistribution follow the order in which the destination
  addresses first appear in the stored claims (ascending id). Every row but the last holds
  \<open>floor(originalBalance * multiplier / 10^8)\<close> of its own destination; the last destination
  in that order is the one that absorbs the remainder: its row holds the cap minus the
  scaled balances of all the others, which is at least its own scaled balance. The rows
  are a function of the ordered list of (destination, balance) pairs alone, so two runs
  over the same table give the same final balances and the same remainder assignment.
\<close>

theorem remainder_goes_to_last_inserted:
  assumes nonempty: "snapshots \<noteq> []"
    and nonneg: "\<forall>s\<in>set snapshots. 0 \<le> snapshot_balance s"
  shows "\<exists>m rows.
      multiplierBigInt TARGET_BALANCE_SATS (totalClaimedRaw (aggregatedEntries snapshots)) = Some m
      \<and> download_csv_balances snapshots = Some rows
      \<and> rows \<noteq> []
      \<and> length rows = length (aggregatedEntries snapshots)
      \<and> map fst rows = rev (remdups (rev (map epix_address snapshots)))
      \<and> (\<forall>i. Suc i < length rows \<longrightarrow>
            rows ! i = (fst (aggregatedEntries snapshots ! i),
              (snd (aggregatedEntries snapshots ! i) * m) div 10 ^ 8))
      \<and> last rows = (last (rev (remdups (rev (map epix_address snapshots)))),
            TARGET_BALANCE_SATS
              - sum_list (map (\<lambda>e. (snd e * m) div 10 ^ 8) (butlast (aggregatedEntries snapshots))))
      \<and> (snd (last (aggregatedEntries snapshots)) * m) div 10 ^ 8 \<le> snd (last rows)
      \<and> snd (last rows) = TARGET_BALANCE_SATS - sum_list (map snd (butlast rows))
      \<and> (\<forall>snapshots'.
            map (\<lambda>s. (epix_address s, snapshot_balance s)) snapshots'
              = map (\<lambda>s. (epix_address s, snapshot_balance s)) snapshots
            \<longrightarrow> download_csv_balances snapshots' = Some rows)"
proof -
  let ?es = "aggregatedEntries snapshots"
  from redistribute_total [OF TARGET_BALANCE_SATS_nonneg, of snapshots]
  obtain m where m: "multiplierBigInt TARGET_BALANCE_SATS (totalClaimedRaw ?es) = Some m"
    and rows: "download_csv_balances snapshots =
      Some (finalBalances TARGET_BALANCE_SATS m 0 ?es)"
    by (auto simp: download_csv_balances_def)
  let ?rows = "finalBalances TARGET_BALANCE_SATS m 0 ?es"
  have es_ne: "?es \<noteq> []" using nonempty by (rule aggregatedEntries_nonempty)
  then have ne: "?rows \<noteq> []" by (rule finalBalances_nonempty)
  have len: "length ?rows = length ?es" by simp
  have nn: "\<forall>e\<in>set ?es. 0 \<le> snd e" using nonneg by (rule aggregatedEntries_nonneg)
  then have "0 \<le> sum_list (map snd ?es)" by (auto intro!: sum_list_nonneg)
  then have tot0: "0 \<le> totalClaimedRaw ?es" by (simp add: totalClaimedRaw_sum)
  from multiplier_room [OF TARGET_BALANCE_SATS_nonneg tot0 m]
  have m0: "0 \<le> m" and room: "m * sum_list (map snd ?es) \<le> TARGET_BALANCE_SATS * 100000000"
    by (simp_all add: totalClaimedRaw_sum)
  have keys: "map fst ?rows = rev (remdups (rev (map epix_address snapshots)))"
    by (simp add: aggregatedEntries_keys)
  have pre: "\<forall>i. Suc i < length ?rows \<longrightarrow>
      ?rows ! i = (fst (?es ! i), (snd (?es ! i) * m) div 10 ^ 8)"
    using finalBalances_nth_floor [OF nn m0, of _ TARGET_BALANCE_SATS 0] by simp
  from ne have "fst (last ?rows) = last (map fst ?rows)" by (rule last_map [symmetric])
  then have lastkey: "fst (last ?rows) = last (rev (remdups (rev (map epix_address snapshots))))"
    by (simp only: keys)
  have total: "sum_list (map snd ?rows) = TARGET_BALANCE_SATS"
    using rows
    by (intro redistribute_conserve [OF nonempty nonneg TARGET_BALANCE_SATS_nonneg])
      (simp add: download_csv_balances_def)
  from last_row_is_remainder [OF ne total]
  have l: "snd (last ?rows) = TARGET_BALANCE_SATS - sum_list (map snd (butlast ?rows))" .
  have others: "map snd (butlast ?rows) = map (\<lambda>e. (snd e * m) div 100000000) (butlast ?es)"
    using nn m0 by (rule finalBalances_butlast_floor)
  from l have lastval: "snd (last ?rows) = TARGET_BALANCE_SATS
      - sum_list (map (\<lambda>e. (snd e * m) div 10 ^ 8) (butlast ?es))"
    by (simp add: others)
  from lastkey lastval have lastrow: "last ?rows =
      (last (rev (remdups (rev (map epix_address snapshots)))),
       TARGET_BALANCE_SATS - sum_list (map (\<lambda>e. (snd e * m) div 10 ^ 8) (butlast ?es)))"
    by (simp add: prod_eq_iff)
  from es_ne have split: "?es = butlast ?es @ [last ?es]" by simp
  have "sum_list (map (\<lambda>e. (snd e * m) div 100000000) ?es) \<le> TARGET_BALANCE_SATS"
    using nn m0 room by (rule scaled_sum_within_cap)
  then have "sum_list (map (\<lambda>e. (snd e * m) div 100000000) (butlast ?es @ [last ?es]))
      \<le> TARGET_BALANCE_SATS"
    by (simp only: split [symmetric])
  with lastval have own: "(snd (last ?es) * m) div 10 ^ 8 \<le> snd (last ?rows)"
    by simp
  have det: "\<forall>snapshots'.
      map (\<lambda>s. (epix_address s, snapshot_balance s)) snapshots'
        = map (\<lambda>s. (epix_address s, snapshot_balance s)) snapshots
      \<longrightarrow> download_csv_balances snapshots' = Some ?rows"
  proof (intro allI impI)
    fix snapshots' :: "snapshot list"
    assume "map (\<lambda>s. (epix_address s, snapshot_balance s)) snapshots'
        = map (\<lambda>s. (epix_address s, snapshot_balance s)) snapshots"
    from redistribute_pairs [OF this, of TARGET_BALANCE_SATS] rows
    show "download_csv_balances snapshots' = Some ?rows"
      by (simp add: download_csv_balances_def)
  qed
  from m rows ne len keys pre lastrow own l det show ?thesis by blast
qed

theorem remainder_goes_to_last_inserted_witness:
  "[claim ''b'' 100, claim ''a'' 200, claim ''b'' 5] \<noteq> []
   \<and> download_csv_balances [claim ''b'' 100, claim ''a'' 200, claim ''b'' 5]
       = Some [(''b'', 105), (''a'', 1184476899999895)]
   \<and> (\<exists>m rows.
        multiplierBigInt TARGET_BALANCE_SATS (totalClaimedRaw (aggregatedEntries
          [claim ''b'' 100, claim ''a'' 200, claim ''b'' 5])) = Some m
      \<and> download_csv_balances [claim ''b'' 100, claim ''a'' 200, claim ''b'' 5] = Some rows
      \<and> m = 10 ^ 8
      \<and> map fst rows = [''b'', ''a'']
      \<and> rows ! 0 = (''b'', 105)
      \<and> last rows = (''a'', TARGET_BALANCE_SATS - 105))"
proof -
  let ?w = "[claim ''b'' 100, claim ''a'' 200, claim ''b'' 5]"
  have h1: "?w \<noteq> []" by simp
  have h2: "\<forall>s\<in>set ?w. 0 \<le> snapshot_balance s" by (simp add: claim_def)
  have k: "rev (remdups (rev (map epix_address ?w))) = [''b'', ''a'']"
    by (simp add: claim_def)
  have es: "aggregatedEntries ?w = [(''b'', 105), (''a'', 200)]" by code_simp
  have v: "download_csv_balances ?w = Some [(''b'', 105), (''a'', 1184476899999895)]"
    by code_simp
  from remainder_goes_to_last_inserted [OF h1 h2] obtain m rows where
    r: "multiplierBigInt TARGET_BALANCE_SATS (totalClaimedRaw (aggregatedEntries ?w)) = Some m"
    "download_csv_balances ?w = Some rows"
    "length rows = length (aggregatedEntries ?w)"
    "map fst rows = rev (remdups (rev (map epix_address ?w)))"
    "\<forall>i. Suc i < length rows \<longrightarrow>
        rows ! i = (fst (aggregatedEntries ?w ! i), (snd (aggregatedEntries ?w ! i) * m) div 10 ^ 8)"
    "last rows = (last (rev (remdups (rev (map epix_address ?w)))),
        TARGET_BALANCE_SATS
          - sum_list (map (\<lambda>e. (snd e * m) div 10 ^ 8) (butlast (aggregatedEntries ?w))))"
    by blast
  have "multiplierBigInt TARGET_BALANCE_SATS (totalClaimedRaw (aggregatedEntries ?w))
      = Some 100000000"
    by code_simp
  with r(1) have mv: "m = 100000000" by simp
  from r(4) have a: "map fst rows = [''b'', ''a'']" by (simp only: k)
  from r(3) es have "Suc 0 < length rows" by simp
  with r(5) have "rows ! 0 = (fst (aggregatedEntries ?w ! 0),
      (snd (aggregatedEntries ?w ! 0) * m) div 10 ^ 8)"
    by blast
  then have b: "rows ! 0 = (''b'', 105)" by (simp add: es mv)
  from r(6) [unfolded k es] have c: "last rows = (''a'', TARGET_BALANCE_SATS - 105)"
    by (simp add: mv)
  from mv have m8: "m = 10 ^ 8" by simp
  show ?thesis using h1 v r(1) r(2) m8 a b c
    by (intro conjI exI [of _ m] exI [of _ rows]) simp_all
qed

text \<open>
  C10. For every claim set with non-negative balances the multiplier is at most the scale
  \<open>10^8\<close>: equal to it when the total is at most the cap, strictly smaller otherwise. Every
  row other than the last holds \<open>floor(originalBalance * multiplier / 10^8)\<close>, which never
  exceeds the destination's original balance.
\<close>

theorem nonlast_final_at_most_original:
  assumes nonneg: "\<forall>s\<in>set snapshots. 0 \<le> snapshot_balance s"
  shows "\<exists>m rows.
      multiplierBigInt TARGET_BALANCE_SATS (totalClaimedRaw (aggregatedEntries snapshots)) = Some m
      \<and> m \<le> 10 ^ 8
      \<and> (totalClaimedRaw (aggregatedEntries snapshots) \<le> TARGET_BALANCE_SATS \<longrightarrow> m = 10 ^ 8)
      \<and> (TARGET_BALANCE_SATS < totalClaimedRaw (aggregatedEntries snapshots) \<longrightarrow> m < 10 ^ 8)
      \<and> download_csv_balances snapshots = Some rows
      \<and> length rows = length (aggregatedEntries snapshots)
      \<and> (\<forall>i. Suc i < length rows \<longrightarrow>
            fst (rows ! i) = fst (aggregatedEntries snapshots ! i)
            \<and> snd (rows ! i) = (snd (aggregatedEntries snapshots ! i) * m) div 10 ^ 8
            \<and> snd (rows ! i) \<le> snd (aggregatedEntries snapshots ! i))"
proof -
  let ?es = "aggregatedEntries snapshots"
  let ?tot = "totalClaimedRaw ?es"
  from redistribute_total [OF TARGET_BALANCE_SATS_nonneg, of snapshots]
  obtain m where m: "multiplierBigInt TARGET_BALANCE_SATS ?tot = Some m"
    and rows: "download_csv_balances snapshots = Some (finalBalances TARGET_BALANCE_SATS m 0 ?es)"
    by (auto simp: download_csv_balances_def)
  let ?rows = "finalBalances TARGET_BALANCE_SATS m 0 ?es"
  have nn: "\<forall>e\<in>set ?es. 0 \<le> snd e" using nonneg by (rule aggregatedEntries_nonneg)
  then have "0 \<le> sum_list (map snd ?es)" by (auto intro!: sum_list_nonneg)
  then have tot0: "0 \<le> ?tot" by (simp add: totalClaimedRaw_sum)
  from multiplier_room [OF TARGET_BALANCE_SATS_nonneg tot0 m] have m0: "0 \<le> m" by simp
  have under: "?tot \<le> TARGET_BALANCE_SATS \<longrightarrow> m = 10 ^ 8"
    using m by (auto simp: multiplierBigInt_def)
  have over: "TARGET_BALANCE_SATS < ?tot \<longrightarrow> m < 10 ^ 8"
  proof
    assume o: "TARGET_BALANCE_SATS < ?tot"
    from multiplier_over_cap [OF TARGET_BALANCE_SATS_nonneg o] m
    have "m = (TARGET_BALANCE_SATS * 100000000) div ?tot" by simp
    with multiplier_over_cap_less [OF TARGET_BALANCE_SATS_nonneg o] show "m < 10 ^ 8" by simp
  qed
  from under over have le: "m \<le> 100000000"
    by (cases "?tot \<le> TARGET_BALANCE_SATS") simp_all
  have len: "length ?rows = length ?es" by simp
  have pre: "\<forall>i. Suc i < length ?rows \<longrightarrow>
      fst (?rows ! i) = fst (?es ! i)
      \<and> snd (?rows ! i) = (snd (?es ! i) * m) div 10 ^ 8
      \<and> snd (?rows ! i) \<le> snd (?es ! i)"
  proof (intro allI impI)
    fix i assume "Suc i < length ?rows"
    then have i: "Suc i < length ?es" by simp
    then have "?es ! i \<in> set ?es" by simp
    with nn have o0: "0 \<le> snd (?es ! i)" by blast
    with m0 have "0 \<le> snd (?es ! i) * m" by simp
    then have fl: "(snd (?es ! i) * m) sdiv 100000000 = (snd (?es ! i) * m) div 100000000"
      by (simp add: sdiv_nonneg)
    from finalBalances_nth [OF i, of TARGET_BALANCE_SATS m 0]
    have r: "?rows ! i = (fst (?es ! i), (snd (?es ! i) * m) sdiv 100000000)" .
    from scaled_le_original [OF o0 le] r fl
    show "fst (?rows ! i) = fst (?es ! i)
      \<and> snd (?rows ! i) = (snd (?es ! i) * m) div 10 ^ 8
      \<and> snd (?rows ! i) \<le> snd (?es ! i)"
      by simp
  qed
  from le have le8: "m \<le> 10 ^ 8" by simp
  from m le8 under over rows len pre show ?thesis by blast
qed

theorem nonlast_final_at_most_original_witness:
  "\<exists>m rows.
      multiplierBigInt TARGET_BALANCE_SATS (totalClaimedRaw (aggregatedEntries
        [claim ''a'' 1184476900000000, claim ''b'' 1184476900000001, claim ''c'' 7])) = Some m
      \<and> m < 10 ^ 8
      \<and> download_csv_balances
           [claim ''a'' 1184476900000000, claim ''b'' 1184476900000001, claim ''c'' 7] = Some rows
      \<and> snd (rows ! 0) \<le> 1184476900000000
      \<and> snd (rows ! 1) \<le> 1184476900000001"
proof -
  let ?w = "[claim ''a'' 1184476900000000, claim ''b'' 1184476900000001, claim ''c'' 7]"
  have h: "\<forall>s\<in>set ?w. 0 \<le> snapshot_balance s" by (simp add: claim_def)
  have es: "aggregatedEntries ?w =
      [(''a'', 1184476900000000), (''b'', 1184476900000001), (''c'', 7)]"
    by code_simp
  have tot: "totalClaimedRaw
      [(''a'', 1184476900000000), (''b'', 1184476900000001), (''c'', 7)] = 2368953800000008"
    by (simp add: totalClaimedRaw_def)
  from nonlast_final_at_most_original [OF h] obtain m rows where
    r: "multiplierBigInt TARGET_BALANCE_SATS (totalClaimedRaw (aggregatedEntries ?w)) = Some m"
      "TARGET_BALANCE_SATS < totalClaimedRaw (aggregatedEntries ?w) \<longrightarrow> m < 10 ^ 8"
      "download_csv_balances ?w = Some rows"
      "length rows = length (aggregatedEntries ?w)"
      "\<forall>i. Suc i < length rows \<longrightarrow>
            fst (rows ! i) = fst (aggregatedEntries ?w ! i)
            \<and> snd (rows ! i) = (snd (aggregatedEntries ?w ! i) * m) div 10 ^ 8
            \<and> snd (rows ! i) \<le> snd (aggregatedEntries ?w ! i)"
    by blast
  from r(2) have m: "m < 10 ^ 8" by (simp add: es tot TARGET_BALANCE_SATS_value)
  from r(4) es have l: "Suc 0 < length rows" "Suc 1 < length rows" by simp_all
  from r(5) l(1) have "snd (rows ! 0) \<le> snd (aggregatedEntries ?w ! 0)" by blast
  then have a: "snd (rows ! 0) \<le> 1184476900000000" by (simp add: es)
  from r(5) l(2) have "snd (rows ! 1) \<le> snd (aggregatedEntries ?w ! 1)" by blast
  then have b: "snd (rows ! 1) \<le> 1184476900000001" by (simp add: es)
  from r(1) m r(3) a b show ?thesis by blast
qed


section \<open>Claims on the CSV export\<close>

text \<open>
  C8. Every field value written by \<open>escapeCsvField\<close> that contains a comma, a double quote or
  a newline character (line feed or carriage return) is wrapped in double quotes with each
  inner double quote doubled; every other value is emitted unchanged. Consequently every
  row of fields, and so every raw payload string with a comma and a quote in it, is read
  back unchanged by a standard CSV reader.
\<close>

theorem escapeCsvField_roundtrip:
  "escapeCsvField (Some s) =
     (if comma \<in> set s \<or> dquote \<in> set s \<or> LF \<in> set s \<or> CR \<in> set s
      then [dquote] @ concat (map (\<lambda>c. if c = dquote then [dquote, dquote] else [c]) s) @ [dquote]
      else s)
   \<and> escapeCsvField None = []
   \<and> csv_read_row (escapeCsvField (Some s)) = Some [s]
   \<and> csv_read_row (csv_row (f # fs)) = Some (f # fs)
   \<and> csv_row [''{\"a\":\"x,y\"}'', ''sig''] = ''\"{\"\"a\"\":\"\"x,y\"\"}\",sig''
   \<and> csv_read_row ''\"{\"\"a\"\":\"\"x,y\"\"}\",sig'' = Some [''{\"a\":\"x,y\"}'', ''sig'']"
proof -
  have r: "replace_dquotes s = concat (map (\<lambda>c. if c = dquote then [dquote, dquote] else [c]) s)"
    by (induction s) simp_all
  have a: "escapeCsvField (Some s) =
     (if comma \<in> set s \<or> dquote \<in> set s \<or> LF \<in> set s \<or> CR \<in> set s
      then [dquote] @ concat (map (\<lambda>c. if c = dquote then [dquote, dquote] else [c]) s) @ [dquote]
      else s)"
    by (simp add: escapeCsvField_def r)
  have b: "csv_read_row (escapeCsvField (Some s)) = Some [s]"
    by (simp add: csv_read_row_def parse_escaped_last)
  have c: "csv_read_row (csv_row (f # fs)) = Some (f # fs)"
    by (simp add: csv_read_row_def csv_row_roundtrip)
  have d: "csv_row [''{\"a\":\"x,y\"}'', ''sig''] = ''\"{\"\"a\"\":\"\"x,y\"\"}\",sig''"
    by (simp add: csv_row_def escapeCsvField_def comma_def dquote_def LF_def CR_def)
  have e: "csv_read_row ''\"{\"\"a\"\":\"\"x,y\"\"}\",sig'' = Some [''{\"a\":\"x,y\"}'', ''sig'']"
    using csv_row_roundtrip [of "''{\"a\":\"x,y\"}''" "[''sig'']"]
    by (simp only: d csv_read_row_def)
  have n: "escapeCsvField None = []" by (simp add: escapeCsvField_def)
  from a n b c d e show ?thesis by (intro conjI)
qed

section \<open>Claims on the verification handler\<close>

text \<open>
  C5. POST /verify-snapshot tests the signature header first and then runs its checks in
  the fixed order snapshot height, claim deadline, duplicate address, balance, signature;
  the response is that of the first check that does not pass. The second conjunct spells
  the decisions out on the request, the replies, the clock and the store: a missing or
  empty signature; a tip height that is unavailable or not 3000000; a clock past
  2025-06-06T00:00:00Z; a stored row of the same address; a balance not strictly equal to
  the claimed one; a verification reply other than the string True; and only then the
  insert. A request without a signature is answered 400 "Signature is required" with no
  call made at all, and the calls that are made are always an initial part of: indexer
  tip, store lookup, balance, signature verification. When the balance check is reached
  and the node's reply holds a balance, the response is "Balance verification failed"
  exactly when that balance is not strictly equal to the claimed one; on numbers strict
  equality is equality, with no tolerance. The lookup throws on an undefined address and
  finds exactly the rows of a string address.
\<close>

theorem verify_snapshot_check_order:
  "response (verify_snapshot e req store) =
     (if missing_signature req then (400, Error ''Signature is required'')
      else case find (\<lambda>v. v \<noteq> Next ()) (checks_in_order e req store) of
             Some (Return r) \<Rightarrow> r
           | Some Throw \<Rightarrow> (500, Error ''Internal server error'')
           | _ \<Rightarrow> response (verify_commit e req store))
   \<and> response (verify_snapshot e req store) =
     (if signature_header req = None \<or> signature_header req = Some []
      then (400, Error ''Signature is required'')
      else case tip_reply e of
        Rejects \<Rightarrow> (500, Error ''Internal server error'')
      | Resolves data \<Rightarrow>
          if \<not> truthy data then (400, Error ''Unable to retrieve block height'')
          else case get_prop data ''tipHeight'' of
            Threw \<Rightarrow> (500, Error ''Internal server error'')
          | Got tipHeight \<Rightarrow>
              if \<not> truthy tipHeight then (400, Error ''Unable to retrieve block height'')
              else if \<not> loose_eq_number (toNumber e) tipHeight 3000000
              then (400, Error ''Block height must be at 3,000,000 blocks'')
              else if now e > 1749168000000
              then (400, Error
                ''Claim period has ended. The deadline was June 6th, 2025 at 00:00:00 UTC'')
              else case Snapshot_findOne e store (req_x42_address req) of
                Threw \<Rightarrow> (500, Error ''Internal server error'')
              | Got (Some existing) \<Rightarrow>
                  (400, Error ''Duplicate address. Snapshot was already verified.'')
              | Got None \<Rightarrow>
                  (case balance_reply e of
                     Rejects \<Rightarrow> (500, Error ''Internal server error'')
                   | Resolves balances_data \<Rightarrow>
                       (case get_prop balances_data ''balances'' of
                          Threw \<Rightarrow> (500, Error ''Internal server error'')
                        | Got balances \<Rightarrow>
                            (case get_index0 balances of
                               Threw \<Rightarrow> (500, Error ''Internal server error'')
                             | Got first \<Rightarrow>
                                 (case get_prop first ''balance'' of
                                    Threw \<Rightarrow> (500, Error ''Internal server error'')
                                  | Got balance \<Rightarrow>
                                      if \<not> strict_eq balance (req_snapshot_balance req)
                                      then (400, Error ''Balance verification failed'')
                                      else (case verify_reply e of
                                        Rejects \<Rightarrow> (500, Error ''Internal server error'')
                                      | Resolves verdict \<Rightarrow>
                                          if \<not> strict_eq verdict (Some (JStr ''True''))
                                          then (400, Error ''Signature verification failed'')
                                          else (case Snapshot_create e store (body req)
                                                  (req_signature req) (req_x42_address req)
                                                  (req_epix_address req)
                                                  (req_snapshot_balance req) of
                                             None \<Rightarrow> (500, Error ''Internal server error'')
                                           | Some store' \<Rightarrow>
                                               (200, Message
                                                 ''Snapshot verified and stored successfully''))))))))
   \<and> (missing_signature req \<longrightarrow>
        effects_before (verify_snapshot e req store) = []
        \<and> effects_after (verify_snapshot e req store) = []
        \<and> store_after (verify_snapshot e req store) = store)
   \<and> (\<exists>n. fst (verify_checks e req store) = take (Suc n) (calls_in_order req))
   \<and> (\<not> missing_signature req \<and> check_block_height e = Next () \<and> check_deadline e = Next ()
        \<and> check_duplicate e store (req_x42_address req) = Next ()
        \<and> balance_reply e = Resolves data \<and> read_balance data = Got balance
      \<longrightarrow> (response (verify_snapshot e req store) = (400, Error ''Balance verification failed''))
          = (\<not> strict_eq balance (req_snapshot_balance req)))
   \<and> strict_eq (Some (JNum a)) (Some (JNum b)) = (a = b)
   \<and> (Snapshot_findOne e store None = Threw)
   \<and> (\<not> findOne_fails e \<longrightarrow>
        Snapshot_findOne e store (Some (JStr addr))
          = Got (find (\<lambda>row. x42_address row = addr) store))"
proof -
  let ?first = "find (\<lambda>v. v \<noteq> Next ()) (checks_in_order e req store)"
  have order: "response (verify_snapshot e req store) =
     (if missing_signature req then (400, Error ''Signature is required'')
      else case ?first of
             Some (Return r) \<Rightarrow> r
           | Some Throw \<Rightarrow> (500, Error ''Internal server error'')
           | _ \<Rightarrow> response (verify_commit e req store))"
  proof (cases ?first)
    case None
    then show ?thesis
      by (simp add: verify_snapshot_response verify_checks_first_failing)
  next
    case (Some v)
    then have "v \<noteq> Next ()" by (auto simp: find_Some_iff)
    with Some show ?thesis
      by (cases v) (simp_all add: verify_snapshot_response verify_checks_first_failing)
  qed
  have nosig: "missing_signature req \<longrightarrow>
        effects_before (verify_snapshot e req store) = []
        \<and> effects_after (verify_snapshot e req store) = []
        \<and> store_after (verify_snapshot e req store) = store"
    by (simp add: verify_snapshot_def)
  have calls: "\<exists>n. fst (verify_checks e req store) = take (Suc n) (calls_in_order req)"
    by (rule verify_checks_calls)
  have bal: "\<not> missing_signature req \<and> check_block_height e = Next () \<and> check_deadline e = Next ()
        \<and> check_duplicate e store (req_x42_address req) = Next ()
        \<and> balance_reply e = Resolves data \<and> read_balance data = Got balance
      \<longrightarrow> (response (verify_snapshot e req store) = (400, Error ''Balance verification failed''))
          = (\<not> strict_eq balance (req_snapshot_balance req))"
  proof (intro impI, elim conjE)
    assume sig: "\<not> missing_signature req"
      and pass: "check_block_height e = Next ()" "check_deadline e = Next ()"
        "check_duplicate e store (req_x42_address req) = Next ()"
      and reply: "balance_reply e = Resolves data" "read_balance data = Got balance"
    show "(response (verify_snapshot e req store) = (400, Error ''Balance verification failed''))
          = (\<not> strict_eq balance (req_snapshot_balance req))"
    proof (cases "strict_eq balance (req_snapshot_balance req)")
      case False
      with reply have "check_balance e (req_snapshot_balance req)
          = Return (400, Error ''Balance verification failed'')"
        by (simp add: check_balance_def)
      with pass sig False show ?thesis
        by (simp add: order checks_in_order_def)
    next
      case True
      with reply have b: "check_balance e (req_snapshot_balance req) = Next ()"
        by (simp add: check_balance_def)
      have "response (verify_snapshot e req store) \<noteq> (400, Error ''Balance verification failed'')"
      proof (cases "check_signature e" rule: step_cases)
        case 1
        with pass b sig have "response (verify_snapshot e req store)
            = response (verify_commit e req store)"
          by (simp add: order checks_in_order_def)
        with verify_commit_not_400 [of e req store] show ?thesis by auto
      next
        case (2 r)
        with pass b sig have "response (verify_snapshot e req store) = r"
          by (simp add: order checks_in_order_def)
        with 2 check_signature_not_balance [of e] show ?thesis by auto
      next
        case 3
        with pass b sig show ?thesis by (simp add: order checks_in_order_def)
      qed
      with True show ?thesis by simp
    qed
  qed
  have eq: "strict_eq (Some (JNum a)) (Some (JNum b)) = (a = b)" by simp
  have undef: "Snapshot_findOne e store None = Threw"
    by (simp add: Snapshot_findOne_threw)
  have str: "\<not> findOne_fails e \<longrightarrow>
        Snapshot_findOne e store (Some (JStr addr))
          = Got (find (\<lambda>row. x42_address row = addr) store)"
    by (simp add: Snapshot_findOne_string)
  from order verify_snapshot_decision [of e req store] nosig calls bal eq undef str
  show ?thesis by (intro conjI)
qed

theorem verify_snapshot_check_order_witness:
  "\<not> missing_signature sample_request
   \<and> check_block_height sample_env = Next ()
   \<and> check_deadline sample_env = Next ()
   \<and> response (verify_snapshot
        (sample_env\<lparr>balance_reply := Resolves (Some (JObj [(''balances'',
           JArr [JObj [(''balance'', JNum 69223563045)]])]))\<rparr>)
        sample_request []) = (400, Error ''Balance verification failed'')
   \<and> effects_before (verify_snapshot sample_env (sample_request\<lparr>signature_header := None\<rparr>) [])
       = []
   \<and> response (verify_snapshot
        (sample_env\<lparr>tip_reply := Resolves (Some (JObj [(''tipHeight'', JNum 2999999)]))\<rparr>)
        sample_request []) = (400, Error ''Block height must be at 3,000,000 blocks'')
   \<and> response (verify_snapshot (sample_env\<lparr>now := 1749168000001\<rparr>) sample_request [])
       = (400, Error
           ''Claim period has ended. The deadline was June 6th, 2025 at 00:00:00 UTC'')
   \<and> response (verify_snapshot sample_env sample_request [sample_row])
       = (400, Error ''Duplicate address. Snapshot was already verified.'')
   \<and> response (verify_snapshot (sample_env\<lparr>verify_reply := Resolves (Some (JStr ''False''))\<rparr>)
        sample_request []) = (400, Error ''Signature verification failed'')
   \<and> response (verify_snapshot sample_env sample_request [])
       = (200, Message ''Snapshot verified and stored successfully'')"
proof -
  let ?data = "Some (JObj [(''balances'', JArr [JObj [(''balance'', JNum 69223563045)]])])"
  let ?e = "sample_env\<lparr>balance_reply := Resolves ?data\<rparr>"
  have h: "\<not> missing_signature sample_request" "check_block_height ?e = Next ()"
    "check_deadline ?e = Next ()"
    "check_duplicate ?e [] (req_x42_address sample_request) = Next ()"
    "balance_reply ?e = Resolves ?data"
    "read_balance ?data = Got (Some (JNum 69223563045))"
    by (simp_all add: sample_request_fields sample_env_def check_block_height_def
        check_deadline_def claimDeadline_def check_duplicate_def Snapshot_findOne_def
        read_balance_def)
  have m: "missing_signature (sample_request\<lparr>signature_header := None\<rparr>)"
    by (simp add: missing_signature_def)
  note balance_part = verify_snapshot_check_order
    [where e = ?e and req = sample_request and store = "[]" and data = ?data
      and balance = "Some (JNum 69223563045)",
      THEN conjunct2, THEN conjunct2, THEN conjunct2, THEN conjunct2, THEN conjunct1]
  from balance_part h
  have "(response (verify_snapshot ?e sample_request []) = (400, Error ''Balance verification failed''))
      = (\<not> strict_eq (Some (JNum 69223563045)) (req_snapshot_balance sample_request))"
    by blast
  then have a: "response (verify_snapshot ?e sample_request [])
      = (400, Error ''Balance verification failed'')"
    by (simp add: sample_request_fields)
  note signature_part = verify_snapshot_check_order
    [where e = sample_env and req = "sample_request\<lparr>signature_header := None\<rparr>"
      and store = "[]",
      THEN conjunct2, THEN conjunct2, THEN conjunct1]
  from signature_part m
  have b: "effects_before (verify_snapshot sample_env
      (sample_request\<lparr>signature_header := None\<rparr>) []) = []"
    by blast
  have f: "req_x42_address sample_request = Some (JStr ''XG9pb7U3'')"
    "req_snapshot_balance sample_request = Some (JNum 69223563046)"
    "signature_header sample_request = Some ''H1sig''"
    by (simp_all add: sample_request_fields) (simp add: sample_request_def)
  have c: "response (verify_snapshot
        (sample_env\<lparr>tip_reply := Resolves (Some (JObj [(''tipHeight'', JNum 2999999)]))\<rparr>)
        sample_request []) = (400, Error ''Block height must be at 3,000,000 blocks'')"
    by (subst verify_snapshot_check_order [THEN conjunct2, THEN conjunct1])
      (simp add: f sample_env_def)
  have d: "response (verify_snapshot (sample_env\<lparr>now := 1749168000001\<rparr>) sample_request [])
       = (400, Error
           ''Claim period has ended. The deadline was June 6th, 2025 at 00:00:00 UTC'')"
    by (subst verify_snapshot_check_order [THEN conjunct2, THEN conjunct1])
      (simp add: f sample_env_def)
  have u: "response (verify_snapshot sample_env sample_request [sample_row])
       = (400, Error ''Duplicate address. Snapshot was already verified.'')"
    by (subst verify_snapshot_check_order [THEN conjunct2, THEN conjunct1])
      (simp add: f sample_env_def Snapshot_findOne_def sample_row_def)
  have g: "response (verify_snapshot (sample_env\<lparr>verify_reply := Resolves (Some (JStr ''False''))\<rparr>)
        sample_request []) = (400, Error ''Signature verification failed'')"
    by (subst verify_snapshot_check_order [THEN conjunct2, THEN conjunct1])
      (simp add: f sample_env_def Snapshot_findOne_def)
  have k: "response (verify_snapshot sample_env sample_request [])
       = (200, Message ''Snapshot verified and stored successfully'')"
    by (subst verify_snapshot_check_order [THEN conjunct2, THEN conjunct1])
      (simp add: f sample_env_def Snapshot_findOne_def sample_request_fields sample_create
        [unfolded sample_env_def])
  from h(1) sample_env_checks(1,2) a b c d u g k show ?thesis by (intro conjI)
qed

text \<open>
  C6, as the code has it. A tip-height reply that arrives without a \<open>tipHeight\<close>, or with an
  empty body, is answered 400 "Unable to retrieve block height" by the handler's own
  guard, not 500.
\<close>

theorem tip_height_malformed_counterexample:
  "\<not> missing_signature sample_request
   \<and> response (verify_snapshot
        (sample_env\<lparr>tip_reply := Resolves (Some (JObj [(''tipHash'', JStr ''180d965f'')]))\<rparr>)
        sample_request []) = (400, Error ''Unable to retrieve block height'')
   \<and> response (verify_snapshot (sample_env\<lparr>tip_reply := Resolves (Some (JStr []))\<rparr>)
        sample_request []) = (400, Error ''Unable to retrieve block height'')"
  by (simp add: sample_request_fields verify_snapshot_response verify_checks_first_failing
      checks_in_order_def check_block_height_def sample_env_def)

text \<open>
  C6, amended. In POST /verify-snapshot every step that throws is answered 500 when it is
  the first step that does not pass: a call to the node that rejects (no connection, a
  timeout of the transport, a status outside 2xx), a balance reply from which
  \<open>data.balances[0].balance\<close> cannot be read, a lookup that fails or is given an undefined
  address, and an insert that fails after every check has passed. Every validation failure
  is answered 400. A tip-height call that rejects is answered 500; a tip-height reply that
  arrives without data or without a truthy \<open>tipHeight\<close> is answered 400 "Unable to retrieve
  block height". The status is 500 exactly when a step throws, 400 exactly when the
  signature is missing or a check returns, and 200 exactly when every check passes and the
  insert succeeds.
\<close>

theorem verify_snapshot_status_mapping:
  "(\<not> missing_signature req
      \<and> find (\<lambda>v. v \<noteq> Next ()) (checks_in_order e req store) = Some Throw
      \<longrightarrow> response (verify_snapshot e req store) = (500, Error ''Internal server error''))
   \<and> (\<not> missing_signature req
      \<and> find (\<lambda>v. v \<noteq> Next ()) (checks_in_order e req store) = Some (Return r)
      \<longrightarrow> response (verify_snapshot e req store) = r \<and> fst r = 400)
   \<and> (missing_signature req \<longrightarrow> fst (response (verify_snapshot e req store)) = 400)
   \<and> (check_block_height e = Throw \<longleftrightarrow> tip_reply e = Rejects)
   \<and> check_deadline e \<noteq> Throw
   \<and> (check_duplicate e store (req_x42_address req) = Throw \<longleftrightarrow>
        findOne_fails e \<or> req_x42_address req = None)
   \<and> (check_balance e (req_snapshot_balance req) = Throw \<longleftrightarrow>
        balance_reply e = Rejects
        \<or> (\<exists>data. balance_reply e = Resolves data \<and> read_balance data = Threw))
   \<and> (check_signature e = Throw \<longleftrightarrow> verify_reply e = Rejects)
   \<and> (\<not> missing_signature req \<and> tip_reply e = Rejects
      \<longrightarrow> response (verify_snapshot e req store) = (500, Error ''Internal server error''))
   \<and> (\<not> missing_signature req \<and> tip_reply e = Resolves data
        \<and> (\<not> truthy data \<or> (\<exists>h. get_prop data ''tipHeight'' = Got h \<and> \<not> truthy h))
      \<longrightarrow> response (verify_snapshot e req store)
           = (400, Error ''Unable to retrieve block height''))
   \<and> (\<not> missing_signature req
        \<and> find (\<lambda>v. v \<noteq> Next ()) (checks_in_order e req store) = None
        \<and> Snapshot_create e store (body req) (req_signature req) (req_x42_address req)
            (req_epix_address req) (req_snapshot_balance req) = None
      \<longrightarrow> response (verify_snapshot e req store) = (500, Error ''Internal server error'')
          \<and> store_after (verify_snapshot e req store) = store)
   \<and> (\<not> missing_signature req
        \<and> find (\<lambda>v. v \<noteq> Next ()) (checks_in_order e req store) = None
        \<and> Snapshot_create e store (body req) (req_signature req) (req_x42_address req)
            (req_epix_address req) (req_snapshot_balance req) = Some store'
      \<longrightarrow> response (verify_snapshot e req store)
            = (200, Message ''Snapshot verified and stored successfully'')
          \<and> store_after (verify_snapshot e req store) = store')
   \<and> (Snapshot_create e store (body req) (req_signature req) (req_x42_address req)
            (req_epix_address req) (req_snapshot_balance req) = None
        \<longleftrightarrow> create_fails e
          \<or> to_row e (body req) (req_signature req) (req_x42_address req)
               (req_epix_address req) (req_snapshot_balance req) = None)
   \<and> (fst (response (verify_snapshot e req store)) = 500 \<longleftrightarrow>
        \<not> missing_signature req
        \<and> (find (\<lambda>v. v \<noteq> Next ()) (checks_in_order e req store) = Some Throw
           \<or> find (\<lambda>v. v \<noteq> Next ()) (checks_in_order e req store) = None
             \<and> Snapshot_create e store (body req) (req_signature req) (req_x42_address req)
            (req_epix_address req) (req_snapshot_balance req) = None))
   \<and> (fst (response (verify_snapshot e req store)) = 400 \<longleftrightarrow>
        missing_signature req
        \<or> (\<exists>r. find (\<lambda>v. v \<noteq> Next ()) (checks_in_order e req store) = Some (Return r)))
   \<and> (fst (response (verify_snapshot e req store)) = 200 \<longleftrightarrow>
        \<not> missing_signature req
        \<and> find (\<lambda>v. v \<noteq> Next ()) (checks_in_order e req store) = None
        \<and> Snapshot_create e store (body req) (req_signature req) (req_x42_address req)
            (req_epix_address req) (req_snapshot_balance req) \<noteq> None)"
proof -
  let ?first = "find (\<lambda>v. v \<noteq> Next ()) (checks_in_order e req store)"
  let ?resp = "response (verify_snapshot e req store)"
  have r: "\<not> missing_signature req \<Longrightarrow> ?resp =
      (case snd (verify_checks e req store) of
         Return r \<Rightarrow> r
       | Throw \<Rightarrow> (500, Error ''Internal server error'')
       | Next u \<Rightarrow> response (verify_commit e req store))"
    by (simp add: verify_snapshot_response)
  have c1: "\<not> missing_signature req \<and> ?first = Some Throw
      \<longrightarrow> ?resp = (500, Error ''Internal server error'')"
    by (simp add: r verify_checks_first_failing)
  have c2: "\<not> missing_signature req \<and> ?first = Some (Return r) \<longrightarrow> ?resp = r \<and> fst r = 400"
    using first_failing_return_400 [of e req store r]
    by (simp add: r verify_checks_first_failing)
  have c3: "missing_signature req \<longrightarrow> fst ?resp = 400"
    by (simp add: verify_snapshot_response)
  have c9: "\<not> missing_signature req \<and> tip_reply e = Rejects
      \<longrightarrow> ?resp = (500, Error ''Internal server error'')"
    by (simp add: r verify_checks_first_failing checks_in_order_def check_block_height_def)
  have c10: "\<not> missing_signature req \<and> tip_reply e = Resolves data
        \<and> (\<not> truthy data \<or> (\<exists>h. get_prop data ''tipHeight'' = Got h \<and> \<not> truthy h))
      \<longrightarrow> ?resp = (400, Error ''Unable to retrieve block height'')"
  proof (intro impI, elim conjE)
    assume s: "\<not> missing_signature req" and t: "tip_reply e = Resolves data"
      and u: "\<not> truthy data \<or> (\<exists>h. get_prop data ''tipHeight'' = Got h \<and> \<not> truthy h)"
    from check_block_height_unavailable [OF t u] s
    show "?resp = (400, Error ''Unable to retrieve block height'')"
      by (simp add: r verify_checks_first_failing checks_in_order_def)
  qed
  let ?create = "Snapshot_create e store (body req) (req_signature req) (req_x42_address req)
            (req_epix_address req) (req_snapshot_balance req)"
  have pass: "\<not> missing_signature req \<Longrightarrow> ?first = None \<Longrightarrow>
      ?resp = response (verify_commit e req store)
      \<and> store_after (verify_snapshot e req store) = store_after (verify_commit e req store)"
    by (simp add: r verify_snapshot_store verify_checks_first_failing)
  have c11: "\<not> missing_signature req \<and> ?first = None \<and> ?create = None
      \<longrightarrow> ?resp = (500, Error ''Internal server error'')
          \<and> store_after (verify_snapshot e req store) = store"
    using pass by (simp add: verify_commit_response verify_commit_store)
  have c12: "\<not> missing_signature req \<and> ?first = None \<and> ?create = Some store'
      \<longrightarrow> ?resp = (200, Message ''Snapshot verified and stored successfully'')
          \<and> store_after (verify_snapshot e req store) = store'"
    using pass by (simp add: verify_commit_response verify_commit_store)
  have c13: "?create = None
        \<longleftrightarrow> create_fails e
          \<or> to_row e (body req) (req_signature req) (req_x42_address req)
               (req_epix_address req) (req_snapshot_balance req) = None"
    by (simp add: Snapshot_create_def)
  have status: "(fst ?resp = 500 \<longleftrightarrow>
        \<not> missing_signature req
        \<and> (?first = Some Throw \<or> ?first = None \<and> ?create = None))
     \<and> (fst ?resp = 400 \<longleftrightarrow>
        missing_signature req \<or> (\<exists>r. ?first = Some (Return r)))
     \<and> (fst ?resp = 200 \<longleftrightarrow>
        \<not> missing_signature req \<and> ?first = None \<and> ?create \<noteq> None)"
  proof (cases "missing_signature req")
    case True
    with c3 show ?thesis by simp
  next
    case False
    show ?thesis
    proof (cases ?first)
      case None
      with False pass have "?resp = response (verify_commit e req store)" by simp
      with False None show ?thesis
        by (cases ?create) (simp_all add: verify_commit_response)
    next
      case (Some v)
      then have v: "v \<noteq> Next ()" by (auto simp: find_Some_iff)
      show ?thesis
      proof (cases v)
        case (Next u)
        with v show ?thesis by simp
      next
        case (Return r')
        with Some False first_failing_return_400 [of e req store r'] show ?thesis
          by (simp add: r verify_checks_first_failing)
      next
        case Throw
        with Some False show ?thesis by (simp add: r verify_checks_first_failing)
      qed
    qed
  qed
  from c1 c2 c3 check_block_height_throw [of e] check_deadline_no_throw [of e]
    check_duplicate_throw [of e store "req_x42_address req"]
    check_balance_throw [of e "req_snapshot_balance req"]
    check_signature_throw [of e] c9 c10 c11 c12 c13
    status [THEN conjunct1] status [THEN conjunct2, THEN conjunct1]
    status [THEN conjunct2, THEN conjunct2]
  show ?thesis by (intro conjI)
qed

theorem verify_snapshot_status_mapping_witness:
  "\<not> missing_signature sample_request
   \<and> response (verify_snapshot (sample_env\<lparr>tip_reply := Rejects\<rparr>) sample_request [])
       = (500, Error ''Internal server error'')
   \<and> response (verify_snapshot (sample_env\<lparr>tip_reply := Resolves (Some (JObj []))\<rparr>)
        sample_request [])
       = (400, Error ''Unable to retrieve block height'')
   \<and> response (verify_snapshot (sample_env\<lparr>create_fails := True\<rparr>) sample_request [])
       = (500, Error ''Internal server error'')
   \<and> store_after (verify_snapshot (sample_env\<lparr>create_fails := True\<rparr>) sample_request []) = []"
proof -
  have s: "\<not> missing_signature sample_request" by (rule sample_request_fields)
  have "tip_reply (sample_env\<lparr>tip_reply := Rejects\<rparr>) = Rejects" by simp
  with verify_snapshot_status_mapping
    [where req = sample_request and e = "sample_env\<lparr>tip_reply := Rejects\<rparr>" and store = "[]",
      THEN conjunct2, THEN conjunct2, THEN conjunct2, THEN conjunct2, THEN conjunct2, THEN conjunct2, THEN conjunct2, THEN conjunct2, THEN conjunct1] s
  have a: "response (verify_snapshot (sample_env\<lparr>tip_reply := Rejects\<rparr>) sample_request [])
       = (500, Error ''Internal server error'')"
    by blast
  let ?e = "sample_env\<lparr>tip_reply := Resolves (Some (JObj []))\<rparr>"
  have t: "tip_reply ?e = Resolves (Some (JObj []))" by simp
  have u: "\<not> truthy (Some (JObj [])) \<or>
      (\<exists>h. get_prop (Some (JObj [])) ''tipHeight'' = Got h \<and> \<not> truthy h)"
    by simp
  from verify_snapshot_status_mapping
    [where req = sample_request and e = ?e and store = "[]" and data = "Some (JObj [])",
      THEN conjunct2, THEN conjunct2, THEN conjunct2, THEN conjunct2, THEN conjunct2, THEN conjunct2, THEN conjunct2, THEN conjunct2, THEN conjunct2, THEN conjunct1] s t u
  have b: "response (verify_snapshot ?e sample_request [])
       = (400, Error ''Unable to retrieve block height'')"
    by blast
  let ?f = "sample_env\<lparr>create_fails := True\<rparr>"
  have p: "find (\<lambda>v. v \<noteq> Next ()) (checks_in_order ?f sample_request []) = None"
    by (simp add: checks_in_order_def sample_request_fields sample_env_def
        check_block_height_def check_deadline_def claimDeadline_def check_duplicate_def
        Snapshot_findOne_def check_balance_def read_balance_def check_signature_def)
  have q: "Snapshot_create ?f [] (body sample_request) (req_signature sample_request)
      (req_x42_address sample_request) (req_epix_address sample_request)
      (req_snapshot_balance sample_request) = None"
    by (simp add: Snapshot_create_def)
  from verify_snapshot_status_mapping
    [where req = sample_request and e = ?f and store = "[]",
      THEN conjunct2, THEN conjunct2, THEN conjunct2, THEN conjunct2, THEN conjunct2, THEN conjunct2, THEN conjunct2, THEN conjunct2, THEN conjunct2, THEN conjunct2, THEN conjunct1] s p q
  have c: "response (verify_snapshot ?f sample_request []) = (500, Error ''Internal server error'')
      \<and> store_after (verify_snapshot ?f sample_request []) = []"
    by blast
  from s a b c show ?thesis by simp
qed

text \<open>
  C7. The handler aims at one stored claim per source address: submitted after its claim is
  stored, the same request is answered 400 "Duplicate address" and nothing more is stored.
  But the \<open>Snapshot\<close> model declares no unique constraint on \<open>x42_address\<close>, and the
  handler awaits the node between its lookup and its insert. Two submissions of one request
  that both run their checks on the empty store, before either inserts, both pass; both
  are then inserted and answered 200, and the store holds two rows of one source address.
  \<open>Snapshot.create\<close> on a store that already holds the address succeeds.
\<close>

theorem racing_submissions_both_stored:
  "response (verify_snapshot sample_env sample_request [sample_row])
       = (400, Error ''Duplicate address. Snapshot was already verified.'')
   \<and> store_after (verify_snapshot sample_env sample_request [sample_row]) = [sample_row]
   \<and> snd (verify_checks sample_env sample_request []) = Next ()
   \<and> response (verify_commit sample_env sample_request [])
       = (200, Message ''Snapshot verified and stored successfully'')
   \<and> store_after (verify_commit sample_env sample_request []) = [sample_row]
   \<and> response (verify_commit sample_env sample_request [sample_row])
       = (200, Message ''Snapshot verified and stored successfully'')
   \<and> store_after (verify_commit sample_env sample_request [sample_row]) = [sample_row, sample_row]
   \<and> map x42_address [sample_row, sample_row] = [''XG9pb7U3'', ''XG9pb7U3'']
   \<and> \<not> distinct (map x42_address [sample_row, sample_row])
   \<and> Snapshot_create sample_env [sample_row] (body sample_request) ''H1sig''
         (Some (JStr ''XG9pb7U3'')) (Some (JStr ''epix1r2357'')) (Some (JNum 69223563046))
       = Some [sample_row, sample_row]"
proof -
  have "check_duplicate sample_env [sample_row] (req_x42_address sample_request)
      = Return (400, Error ''Duplicate address. Snapshot was already verified.'')"
    by (simp add: check_duplicate_def Snapshot_findOne_def sample_request_fields sample_row_def)
      (simp add: sample_env_def)
  then have "snd (verify_checks sample_env sample_request [sample_row])
      = Return (400, Error ''Duplicate address. Snapshot was already verified.'')"
    by (simp add: verify_checks_first_failing checks_in_order_def sample_env_checks)
  then have sequential:
    "response (verify_snapshot sample_env sample_request [sample_row])
       = (400, Error ''Duplicate address. Snapshot was already verified.'')"
    "store_after (verify_snapshot sample_env sample_request [sample_row]) = [sample_row]"
    by (simp_all add: verify_snapshot_response verify_snapshot_store sample_request_fields)
  have race:
    "snd (verify_checks sample_env sample_request []) = Next ()"
    "response (verify_commit sample_env sample_request [])
       = (200, Message ''Snapshot verified and stored successfully'')"
    "store_after (verify_commit sample_env sample_request []) = [sample_row]"
    "response (verify_commit sample_env sample_request [sample_row])
       = (200, Message ''Snapshot verified and stored successfully'')"
    "store_after (verify_commit sample_env sample_request [sample_row]) = [sample_row, sample_row]"
    by (simp_all add: sample_verify_checks sample_commit)
  have rows: "map x42_address [sample_row, sample_row] = [''XG9pb7U3'', ''XG9pb7U3'']"
    "\<not> distinct (map x42_address [sample_row, sample_row])"
    by (simp_all add: sample_row_def)
  have store: "Snapshot_create sample_env [sample_row] (body sample_request) ''H1sig''
         (Some (JStr ''XG9pb7U3'')) (Some (JStr ''epix1r2357'')) (Some (JNum 69223563046))
       = Some [sample_row, sample_row]"
    by (simp add: sample_create)
  from sequential race rows store show ?thesis by (intro conjI)
qed

text \<open>
  C9, as the code has it. The notification is sent with the source (x42) address of the
  claim, not with its destination address.
\<close>

theorem notification_carries_destination_counterexample:
  "effects_before (verify_snapshot sample_env sample_request []) =
     calls_in_order sample_request @
     [DbCreate (body sample_request) ''H1sig'' (Some (JStr ''XG9pb7U3''))
        (Some (JStr ''epix1r2357'')) (Some (JNum 69223563046)),
      WebhookPost (Some (JStr ''XG9pb7U3'')) (Some (JNum 69223563046))]
   \<and> req_x42_address sample_request = Some (JStr ''XG9pb7U3'')
   \<and> req_epix_address sample_request = Some (JStr ''epix1r2357'')
   \<and> WebhookPost (req_epix_address sample_request) (req_snapshot_balance sample_request)
       \<notin> set (effects_before (verify_snapshot sample_env sample_request []))"
  by (simp add: verify_snapshot_def sample_request_fields sample_verify_checks sample_commit
      calls_in_order_def)

text \<open>
  C9, amended. After a successful commit in POST /verify-snapshot the notification, carrying
  the source (x42) address and the claimed balance, is started without being awaited: the
  response is 200, every effect of the notification's outcome comes after the response, and
  neither the response nor the stored claims depend on whether the webhook is configured
  or answers.
\<close>

theorem notification_never_alters_outcome:
  "response (verify_snapshot (e\<lparr>webhook_configured := c, webhook_post_ok := p\<rparr>) req store)
     = response (verify_snapshot e req store)
   \<and> store_after (verify_snapshot (e\<lparr>webhook_configured := c, webhook_post_ok := p\<rparr>) req store)
     = store_after (verify_snapshot e req store)
   \<and> (\<not> missing_signature req \<and> snd (verify_checks e req store) = Next ()
        \<and> Snapshot_create e store (body req) (req_signature req) (req_x42_address req)
             (req_epix_address req) (req_snapshot_balance req) = Some store'
      \<longrightarrow> response (verify_snapshot e req store)
            = (200, Message ''Snapshot verified and stored successfully'')
          \<and> store_after (verify_snapshot e req store) = store'
          \<and> effects_before (verify_snapshot e req store)
            = fst (verify_checks e req store)
              @ DbCreate (body req) (req_signature req) (req_x42_address req)
                  (req_epix_address req) (req_snapshot_balance req)
              # fst (sendSnapshotVerificationNotification e (req_x42_address req)
                      (req_snapshot_balance req))
          \<and> (webhook_configured e \<longrightarrow>
                fst (sendSnapshotVerificationNotification e (req_x42_address req)
                      (req_snapshot_balance req))
                = [WebhookPost (req_x42_address req) (req_snapshot_balance req)])
          \<and> (\<forall>x b. WebhookPost x b \<notin> set (effects_after (verify_snapshot e req store)))
          \<and> (webhook_configured e \<and> webhook_post_ok e
                \<longrightarrow> effects_after (verify_snapshot e req store) = [])
          \<and> (webhook_configured e \<and> \<not> webhook_post_ok e
                \<longrightarrow> effects_after (verify_snapshot e req store)
                    = [ConsoleError ''Failed to send Discord webhook:'',
                       ConsoleWarn ''Discord notification failed for address:'']))"
proof -
  let ?e' = "e\<lparr>webhook_configured := c, webhook_post_ok := p\<rparr>"
  have commit_resp: "response (verify_commit ?e' req store) = response (verify_commit e req store)"
    by (simp add: verify_commit_response Snapshot_create_ignores_webhook)
  have commit_store: "store_after (verify_commit ?e' req store)
      = store_after (verify_commit e req store)"
    by (simp add: verify_commit_store Snapshot_create_ignores_webhook)
  have a: "response (verify_snapshot ?e' req store) = response (verify_snapshot e req store)"
    by (simp add: verify_snapshot_response verify_checks_ignores_webhook commit_resp
        split: step.splits)
  have b: "store_after (verify_snapshot ?e' req store) = store_after (verify_snapshot e req store)"
    by (simp add: verify_snapshot_store verify_checks_ignores_webhook commit_store
        split: step.splits)
  have ok: "\<not> missing_signature req \<and> snd (verify_checks e req store) = Next ()
        \<and> Snapshot_create e store (body req) (req_signature req) (req_x42_address req)
             (req_epix_address req) (req_snapshot_balance req) = Some store'
      \<longrightarrow> response (verify_snapshot e req store)
            = (200, Message ''Snapshot verified and stored successfully'')
          \<and> store_after (verify_snapshot e req store) = store'
          \<and> effects_before (verify_snapshot e req store)
            = fst (verify_checks e req store)
              @ DbCreate (body req) (req_signature req) (req_x42_address req)
                  (req_epix_address req) (req_snapshot_balance req)
              # fst (sendSnapshotVerificationNotification e (req_x42_address req)
                      (req_snapshot_balance req))
          \<and> (webhook_configured e \<longrightarrow>
                fst (sendSnapshotVerificationNotification e (req_x42_address req)
                      (req_snapshot_balance req))
                = [WebhookPost (req_x42_address req) (req_snapshot_balance req)])
          \<and> (\<forall>x b. WebhookPost x b \<notin> set (effects_after (verify_snapshot e req store)))
          \<and> (webhook_configured e \<and> webhook_post_ok e
                \<longrightarrow> effects_after (verify_snapshot e req store) = [])
          \<and> (webhook_configured e \<and> \<not> webhook_post_ok e
                \<longrightarrow> effects_after (verify_snapshot e req store)
                    = [ConsoleError ''Failed to send Discord webhook:'',
                       ConsoleWarn ''Discord notification failed for address:''])"
  proof (intro impI, elim conjE)
    assume sig: "\<not> missing_signature req"
      and pass: "snd (verify_checks e req store) = Next ()"
      and c: "Snapshot_create e store (body req) (req_signature req) (req_x42_address req)
             (req_epix_address req) (req_snapshot_balance req) = Some store'"
    from pass have v: "verify_checks e req store = (fst (verify_checks e req store), Next ())"
      by (simp add: prod_eq_iff)
    have out: "verify_snapshot e req store =
        (verify_commit e req store)\<lparr>effects_before :=
          fst (verify_checks e req store) @ effects_before (verify_commit e req store)\<rparr>"
      using sig by (subst verify_snapshot_def, subst v) (simp add: Let_def)
    show "response (verify_snapshot e req store)
            = (200, Message ''Snapshot verified and stored successfully'')
          \<and> store_after (verify_snapshot e req store) = store'
          \<and> effects_before (verify_snapshot e req store)
            = fst (verify_checks e req store)
              @ DbCreate (body req) (req_signature req) (req_x42_address req)
                  (req_epix_address req) (req_snapshot_balance req)
              # fst (sendSnapshotVerificationNotification e (req_x42_address req)
                      (req_snapshot_balance req))
          \<and> (webhook_configured e \<longrightarrow>
                fst (sendSnapshotVerificationNotification e (req_x42_address req)
                      (req_snapshot_balance req))
                = [WebhookPost (req_x42_address req) (req_snapshot_balance req)])
          \<and> (\<forall>x b. WebhookPost x b \<notin> set (effects_after (verify_snapshot e req store)))
          \<and> (webhook_configured e \<and> webhook_post_ok e
                \<longrightarrow> effects_after (verify_snapshot e req store) = [])
          \<and> (webhook_configured e \<and> \<not> webhook_post_ok e
                \<longrightarrow> effects_after (verify_snapshot e req store)
                    = [ConsoleError ''Failed to send Discord webhook:'',
                       ConsoleWarn ''Discord notification failed for address:''])"
      unfolding out using c
      by (simp add: verify_commit_def Let_def sendSnapshotVerificationNotification_def
          split: prod.splits)
  qed
  from a b ok show ?thesis by (intro conjI)
qed

theorem notification_never_alters_outcome_witness:
  "\<not> missing_signature sample_request
   \<and> response (verify_snapshot (sample_env\<lparr>webhook_configured := True, webhook_post_ok := False\<rparr>)
        sample_request [])
       = (200, Message ''Snapshot verified and stored successfully'')
   \<and> store_after (verify_snapshot
        (sample_env\<lparr>webhook_configured := True, webhook_post_ok := False\<rparr>) sample_request [])
       = [sample_row]
   \<and> effects_after (verify_snapshot sample_env sample_request []) = []"
proof -
  note inst = notification_never_alters_outcome
    [where e = sample_env and c = True and p = False and req = sample_request
      and store = "[]" and store' = "[sample_row]"]
  have h: "\<not> missing_signature sample_request"
    "snd (verify_checks sample_env sample_request []) = Next ()"
    "Snapshot_create sample_env [] (body sample_request) (req_signature sample_request)
       (req_x42_address sample_request) (req_epix_address sample_request)
       (req_snapshot_balance sample_request) = Some [sample_row]"
    "webhook_configured sample_env \<and> webhook_post_ok sample_env"
    using sample_create [of "[]"]
    by (simp_all add: sample_request_fields sample_verify_checks) (simp add: sample_env_def)
  from inst [THEN conjunct2, THEN conjunct2] h
  have ok: "response (verify_snapshot sample_env sample_request [])
       = (200, Message ''Snapshot verified and stored successfully'')"
    "store_after (verify_snapshot sample_env sample_request []) = [sample_row]"
    "effects_after (verify_snapshot sample_env sample_request []) = []"
    by blast+
  from inst [THEN conjunct1] ok(1)
  have a: "response (verify_snapshot
      (sample_env\<lparr>webhook_configured := True, webhook_post_ok := False\<rparr>) sample_request [])
       = (200, Message ''Snapshot verified and stored successfully'')"
    by simp
  from inst [THEN conjunct2, THEN conjunct1] ok(2)
  have b: "store_after (verify_snapshot
      (sample_env\<lparr>webhook_configured := True, webhook_post_ok := False\<rparr>) sample_request [])
       = [sample_row]"
    by simp
  from h(1) a b ok(3) show ?thesis by (intro conjI)
qed


end
